theory Spec2Isabelle
  imports Complex_Main "HOL-Library.Multiset" "HOL-Library.Sublist"
begin

section \<open>Data model\<close>

text \<open>
  The data processor works on pandas data frames read from CSV files. A cell holds a
  string or a number, or is missing (NaN): a missing cell is \<open>None\<close>. A row maps a
  column name to its cell; the frame keeps the list of its column names, in file order.
\<close>

datatype val = Str string | Num real

type_synonym cell = "val option"

type_synonym row = "string \<rightharpoonup> val"

record dataframe =
  columns :: "string list"
  rows :: "row list"

type_synonym path = "string list"

text \<open>The exceptions the modelled code can raise.\<close>

datatype exn =
    KeyError string
  | ValueError
  | AttributeError string
  | FileNotFoundError path
  | PermissionError path
  | FileExistsError path
  | IsADirectoryError path
  | NotADirectoryError path
  | ParserError path
  | ZeroDivisionError
  | OverflowError
  | TypeError

text \<open>
  The dictionary returned by \<open>analyze_dataset\<close>. The key \<open>obs_date_range\<close> is only set
  when the frame has an \<open>observation_date\<close> column: \<open>None\<close> is the key not being there,
  and the pair holds the values under \<open>min\<close> and \<open>max\<close>, each a formatted date or
  Python's \<open>None\<close>. A dictionary built by \<open>to_dict\<close> is the list of its items.
\<close>

record analysis =
  record_counts :: "(val \<times> nat) list"
  obs_date_range :: "(string option \<times> string option) option"
  unique_indicators_count :: nat
  sample_indicators :: "val list"
  missing_values :: "(string \<times> nat) list"

section \<open>Series operations\<close>

text \<open>\<open>df[c]\<close>: the column as a series, or \<open>KeyError\<close> when the frame has no such column.\<close>

definition getitem :: "dataframe \<Rightarrow> string \<Rightarrow> exn + cell list" where
  "getitem df c =
     (if c \<in> set (columns df) then Inr (map (\<lambda>r. r c) (rows df)) else Inl (KeyError c))"

text \<open>\<open>Series.dropna\<close>.\<close>

fun dropna :: "'a option list \<Rightarrow> 'a list" where
  "dropna [] = []"
| "dropna (None # xs) = dropna xs"
| "dropna (Some v # xs) = v # dropna xs"

text \<open>
  \<open>Series.unique\<close>: the distinct values in order of appearance. pandas walks the values
  once with a hash table of the values already seen.
\<close>

fun unique_from :: "'a list \<Rightarrow> 'a list \<Rightarrow> 'a list" where
  "unique_from seen [] = []"
| "unique_from seen (x # xs) =
     (if x \<in> set seen then unique_from seen xs else x # unique_from (x # seen) xs)"

definition unique :: "'a list \<Rightarrow> 'a list" where
  "unique xs = unique_from [] xs"

text \<open>
  \<open>Series.value_counts().to_dict()\<close>: missing values are dropped (\<open>dropna=True\<close> is the
  default), every distinct value is paired with the number of its occurrences, and the
  items are sorted by decreasing count. Items of equal count stay in order of first
  appearance here; nothing below depends on that order.
\<close>

definition value_counts :: "'a option list \<Rightarrow> ('a \<times> nat) list" where
  "value_counts xs =
     (let vs = dropna xs
      in sort_key (\<lambda>(v, n). - int n) (map (\<lambda>v. (v, count_list vs v)) (unique vs)))"

text \<open>\<open>Series.isna().all()\<close>.\<close>

definition isna_all :: "'a option list \<Rightarrow> bool" where
  "isna_all xs = list_all (\<lambda>c. c = None) xs"

text \<open>\<open>Series.min()\<close> and \<open>Series.max()\<close> skip missing values; the result is missing
  (NaT) when no value is left.\<close>

definition series_min :: "('d::linorder) option list \<Rightarrow> 'd option" where
  "series_min xs = (case dropna xs of [] \<Rightarrow> None | d # ds \<Rightarrow> Some (fold min ds d))"

definition series_max :: "('d::linorder) option list \<Rightarrow> 'd option" where
  "series_max xs = (case dropna xs of [] \<Rightarrow> None | d # ds \<Rightarrow> Some (fold max ds d))"

text \<open>\<open>df.isnull().sum()\<close>: for every column of the frame, the number of missing cells.\<close>

definition isnull_sum :: "dataframe \<Rightarrow> (string \<times> nat) list" where
  "isnull_sum df =
     map (\<lambda>c. (c, length (filter (\<lambda>r. r c = None) (rows df)))) (columns df)"

section \<open>The dataset analysis\<close>

text \<open>
  The rows of the frame selected by the mask \<open>df['record_type'] == 'observation'\<close>.
\<close>

definition observations :: "dataframe \<Rightarrow> dataframe" where
  "observations df =
     df\<lparr>rows := filter (\<lambda>r. r ''record_type'' = Some (Str ''observation'')) (rows df)\<rparr>"

text \<open>
  One end of the date range:
  \<open>s.min().strftime('%Y-%m-%d') if not s.isna().all() else None\<close>. Formatting a
  missing timestamp raises \<open>ValueError\<close>.
\<close>

definition date_bound ::
  "('d option list \<Rightarrow> 'd option) \<Rightarrow> ('d \<Rightarrow> string) \<Rightarrow> 'd option list \<Rightarrow> exn + string option" where
  "date_bound pick strftime s =
     (if \<not> isna_all s
      then (case pick s of None \<Rightarrow> Inl ValueError | Some d \<Rightarrow> Inr (Some (strftime d)))
      else Inr None)"

text \<open>
  \<open>DataProcessor.analyze_dataset\<close>, on the frame held in \<open>self.df\<close>. The two pandas
  functions it calls on dates are parameters: \<open>to_datetime\<close> is
  \<open>pd.to_datetime(_, errors='coerce')\<close> on a whole column, which gives a missing
  timestamp for every value it cannot parse, and \<open>strftime\<close> formats a timestamp as
  \<open>%Y-%m-%d\<close>.
\<close>

definition analyze_dataset ::
  "(cell list \<Rightarrow> ('d::linorder) option list) \<Rightarrow> ('d \<Rightarrow> string) \<Rightarrow> dataframe \<Rightarrow> exn + analysis" where
  "analyze_dataset to_datetime strftime df =
     (case getitem df ''record_type'' of
        Inl e \<Rightarrow> Inl e
      | Inr record_type \<Rightarrow>
          let counts = value_counts record_type;
              obs = observations df
          in (case (if ''observation_date'' \<in> set (columns obs)
                    then (case getitem obs ''observation_date'' of
                            Inl e \<Rightarrow> Inl e
                          | Inr raw \<Rightarrow>
                              let dates = to_datetime raw
                              in (case date_bound series_min strftime dates of
                                    Inl e \<Rightarrow> Inl e
                                  | Inr lo \<Rightarrow>
                                      (case date_bound series_max strftime dates of
                                         Inl e \<Rightarrow> Inl e
                                       | Inr hi \<Rightarrow> Inr (Some (lo, hi)))))
                    else Inr None) of
                Inl e \<Rightarrow> Inl e
              | Inr date_range \<Rightarrow>
                  (case getitem obs ''indicator_code'' of
                     Inl e \<Rightarrow> Inl e
                   | Inr indicator_code \<Rightarrow>
                       let unique_indicators = unique (dropna indicator_code);
                           missing = isnull_sum df
                       in Inr \<lparr>record_counts = counts,
                               obs_date_range = date_range,
                               unique_indicators_count = length unique_indicators,
                               sample_indicators = take 5 unique_indicators,
                               missing_values = filter (\<lambda>(c, n). n > 0) missing\<rparr>)))"

section \<open>The enrichment template and the report\<close>

text \<open>
  \<open>DataProcessor.create_enrichment_template\<close>: for each record category, its required and
  its optional fields.
\<close>

definition create_enrichment_template :: "(string \<times> string list \<times> string list) list" where
  "create_enrichment_template =
     [(''observation'',
       [''pillar'', ''indicator'', ''indicator_code'', ''value_numeric'',
        ''observation_date'', ''source_name'', ''source_url''],
       [''source_type'', ''confidence'', ''notes'', ''collected_by'', ''collection_date'']),
      (''event'',
       [''event_name'', ''event_category'', ''event_date'', ''description''],
       [''source_name'', ''source_url'', ''confidence'', ''notes'']),
      (''impact_link'',
       [''parent_id'', ''pillar'', ''related_indicator'', ''impact_direction''],
       [''impact_magnitude'', ''lag_months'', ''evidence_basis'', ''notes''])]"

record summary =
  new_observations :: nat
  new_events :: nat
  new_impact_links :: nat

record report =
  generated_date :: string
  dataset_analysis :: analysis
  enrichment_summary :: summary
  data_quality_issues :: "string list"
  recommendations :: "string list"

text \<open>\<open>len(new_records.get(key, []))\<close>.\<close>

definition len_get :: "(string \<rightharpoonup> row list) \<Rightarrow> string \<Rightarrow> nat" where
  "len_get new_records key = (case new_records key of None \<Rightarrow> 0 | Some rs \<Rightarrow> length rs)"

text \<open>
  The dictionary that \<open>generate_report\<close> builds before it writes anything. \<open>now\<close> is
  the value of \<open>datetime.now().isoformat()\<close> at the call.
\<close>

definition report_dict :: "string \<Rightarrow> analysis \<Rightarrow> (string \<rightharpoonup> row list) \<Rightarrow> report" where
  "report_dict now a new_records =
     \<lparr>generated_date = now,
      dataset_analysis = a,
      enrichment_summary =
        \<lparr>new_observations = len_get new_records ''observations'',
         new_events = len_get new_records ''events'',
         new_impact_links = len_get new_records ''impact_links''\<rparr>,
      data_quality_issues = [],
      recommendations = []\<rparr>"

section \<open>Files and the console\<close>

text \<open>
  A file holds a table (a CSV file that \<open>pd.read_csv\<close> parses), a report written by
  \<open>json.dump\<close> with the given indent, or anything else. The file system knows its
  directories and the paths the process has no permission to use.
\<close>

datatype content = CsvFile dataframe | JsonFile nat report | OtherFile

record filesystem =
  files :: "path \<rightharpoonup> content"
  dirs :: "path set"
  denied :: "path set"

text \<open>What the program prints, one constructor for each formatted line.\<close>

datatype message =
    Text string
  | MainDataset nat nat
  | ReferenceCodes nat nat
  | ErrorLoadingData exn
  | TotalRecords nat
  | RecordTypes "(val \<times> nat) list"
  | UniqueIndicators nat
  | ObservationDateRange "string option \<times> string option"
  | EnrichedDataSavedTo path
  | ReportGenerated path

record world =
  fs :: filesystem
  stdout :: "message list"

definition print :: "message \<Rightarrow> world \<Rightarrow> world" where
  "print m w = w\<lparr>stdout := stdout w @ [m]\<rparr>"

text \<open>A proper ancestor of the path is a regular file.\<close>

definition under_file :: "path \<Rightarrow> filesystem \<Rightarrow> bool" where
  "under_file p f = (\<exists>q \<in> set (butlast (prefixes p)). q \<in> dom (files f))"

text \<open>
  The strings that \<open>pd.read_csv\<close> reads as a missing value (its default \<open>na_values\<close>),
  and the frame it makes of the table in a file: a cell with one of these strings is
  missing.
\<close>

definition na_values :: "string list" where
  "na_values =
     ['''', ''#N/A'', ''#N/A N/A'', ''#NA'', ''-1.#IND'', ''-1.#QNAN'', ''-NaN'', ''-nan'',
      ''1.#IND'', ''1.#QNAN'', ''<NA>'', ''N/A'', ''NA'', ''NULL'', ''NaN'', ''None'', ''n/a'',
      ''nan'', ''null'']"

definition na_cell :: "val \<Rightarrow> cell" where
  "na_cell v =
     (case v of Str s \<Rightarrow> if s \<in> set na_values then None else Some v | Num x \<Rightarrow> Some v)"

definition na_filter :: "dataframe \<Rightarrow> dataframe" where
  "na_filter d = d\<lparr>rows := map (\<lambda>r c. Option.bind (r c) na_cell) (rows d)\<rparr>"

text \<open>
  \<open>pd.read_csv\<close>. Opening the path fails with \<open>NotADirectoryError\<close> under a regular
  file, with \<open>IsADirectoryError\<close> on a directory, with \<open>FileNotFoundError\<close> when nothing
  is there and with \<open>PermissionError\<close> when the path is denied; a file that is not a
  table gives a parser error.
\<close>

definition read_csv :: "path \<Rightarrow> filesystem \<Rightarrow> exn + dataframe" where
  "read_csv p f =
     (if under_file p f then Inl (NotADirectoryError p)
      else if p \<in> dirs f then Inl (IsADirectoryError p)
      else (case files f p of
              None \<Rightarrow> Inl (FileNotFoundError p)
            | Some c \<Rightarrow>
                if p \<in> denied f then Inl (PermissionError p)
                else (case c of CsvFile d \<Rightarrow> Inr (na_filter d) | _ \<Rightarrow> Inl (ParserError p))))"

text \<open>
  Opening a path for writing and writing the content: no ancestor may be a regular
  file, the parent directory must exist, and the path must be neither a directory nor
  denied.
\<close>

definition write_file :: "path \<Rightarrow> content \<Rightarrow> filesystem \<Rightarrow> exn + filesystem" where
  "write_file p c f =
     (if under_file p f then Inl (NotADirectoryError p)
      else if butlast p \<notin> dirs f then Inl (FileNotFoundError p)
      else if p \<in> dirs f then Inl (IsADirectoryError p)
      else if p \<in> denied f then Inl (PermissionError p)
      else Inr (f\<lparr>files := (files f)(p \<mapsto> c)\<rparr>))"

text \<open>
  \<open>Path.mkdir(parents=True, exist_ok=True)\<close>: the directory and all its missing
  ancestors are created. It fails with \<open>NotADirectoryError\<close> when an ancestor is a
  regular file, with \<open>FileExistsError\<close> when the path itself is one, and with
  \<open>PermissionError\<close> when one of the missing directories may not be created.
\<close>

definition mkdir_parents :: "path \<Rightarrow> filesystem \<Rightarrow> exn + filesystem" where
  "mkdir_parents p f =
     (if under_file p f then Inl (NotADirectoryError p)
      else if p \<in> dom (files f) then Inl (FileExistsError p)
      else if \<exists>q \<in> set (prefixes p). q \<in> denied f \<and> q \<notin> dirs f then Inl (PermissionError p)
      else Inr (f\<lparr>dirs := dirs f \<union> set (prefixes p)\<rparr>))"

section \<open>The data processor\<close>

record processor =
  data_dir :: path
  raw_dir :: path
  processed_dir :: path
  df :: "dataframe option"
  ref_codes :: "dataframe option"

text \<open>\<open>DataProcessor.__init__\<close>; the two frames are attributes that \<open>load_data\<close> sets.\<close>

definition init :: "path \<Rightarrow> world \<Rightarrow> (exn + processor) \<times> world" where
  "init dir w =
     (let self = \<lparr>data_dir = dir, raw_dir = dir @ [''raw''],
                  processed_dir = dir @ [''processed''], df = None, ref_codes = None\<rparr>
      in (case mkdir_parents (processed_dir self) (fs w) of
            Inl e \<Rightarrow> (Inl e, w)
          | Inr f \<Rightarrow> (Inr self, w\<lparr>fs := f\<rparr>)))"

definition shape :: "dataframe \<Rightarrow> nat \<times> nat" where
  "shape d = (length (rows d), length (columns d))"

text \<open>The \<open>except FileNotFoundError\<close> clause of \<open>load_data\<close>: any other exception goes on.\<close>

definition load_data_except ::
  "exn \<Rightarrow> processor \<Rightarrow> world \<Rightarrow> (exn + bool \<times> processor) \<times> world" where
  "load_data_except e self w =
     (case e of
        FileNotFoundError p \<Rightarrow> (Inr (False, self), print (ErrorLoadingData e) w)
      | _ \<Rightarrow> (Inl e, w))"

text \<open>\<open>DataProcessor.load_data\<close>.\<close>

definition load_data :: "processor \<Rightarrow> world \<Rightarrow> (exn + bool \<times> processor) \<times> world" where
  "load_data self w =
     (let w1 = print (Text ''Loading datasets...'') w
      in (case read_csv (raw_dir self @ [''ethiopia_fi_unified_data.csv'']) (fs w1) of
            Inl e \<Rightarrow> load_data_except e self w1
          | Inr d \<Rightarrow>
              let self1 = self\<lparr>df := Some d\<rparr>
              in (case read_csv (raw_dir self1 @ [''reference_codes.csv'']) (fs w1) of
                    Inl e \<Rightarrow> load_data_except e self1 w1
                  | Inr r \<Rightarrow>
                      let self2 = self1\<lparr>ref_codes := Some r\<rparr>;
                          w2 = print (MainDataset (fst (shape d)) (snd (shape d))) w1;
                          w3 = print (ReferenceCodes (fst (shape r)) (snd (shape r))) w2
                      in (Inr (True, self2), w3))))"

text \<open>
  \<open>DataProcessor.analyze_dataset\<close> as a method: it reads \<open>self.df\<close>, which does not exist
  before \<open>load_data\<close> has set it.
\<close>

definition analyze ::
  "(cell list \<Rightarrow> ('d::linorder) option list) \<Rightarrow> ('d \<Rightarrow> string) \<Rightarrow> processor \<Rightarrow> exn + analysis" where
  "analyze to_datetime strftime self =
     (case df self of
        None \<Rightarrow> Inl (AttributeError ''df'')
      | Some d \<Rightarrow> analyze_dataset to_datetime strftime d)"

text \<open>\<open>DataProcessor.save_enriched_data\<close>.\<close>

definition save_enriched_data ::
  "processor \<Rightarrow> dataframe \<Rightarrow> string \<Rightarrow> world \<Rightarrow> (exn + path) \<times> world" where
  "save_enriched_data self enriched_df filename w =
     (let save_path = processed_dir self @ [filename]
      in (case write_file save_path (CsvFile enriched_df) (fs w) of
            Inl e \<Rightarrow> (Inl e, w)
          | Inr f \<Rightarrow> (Inr save_path, print (EnrichedDataSavedTo save_path) (w\<lparr>fs := f\<rparr>))))"

text \<open>
  \<open>DataProcessor.generate_report\<close>: the report is built, then written with
  \<open>json.dump(report, f, indent=2)\<close> to \<open>task1_report.json\<close> in the processed directory.
\<close>

definition generate_report ::
  "string \<Rightarrow> processor \<Rightarrow> analysis \<Rightarrow> (string \<rightharpoonup> row list) \<Rightarrow> world \<Rightarrow> (exn + path) \<times> world" where
  "generate_report now self a new_records w =
     (let rep = report_dict now a new_records;
          report_path = processed_dir self @ [''task1_report.json'']
      in (case write_file report_path (JsonFile 2 rep) (fs w) of
            Inl e \<Rightarrow> (Inl e, w)
          | Inr f \<Rightarrow> (Inr report_path, w\<lparr>fs := f\<rparr>)))"

text \<open>
  \<open>main\<close>, with the processor on its default directory \<open>../data\<close>. The result is
  \<open>Inr ()\<close> when \<open>main\<close> returns and \<open>Inl e\<close> when the exception \<open>e\<close> leaves it.
\<close>

definition main ::
  "(cell list \<Rightarrow> ('d::linorder) option list) \<Rightarrow> ('d \<Rightarrow> string) \<Rightarrow> string \<Rightarrow> world \<Rightarrow> (exn + unit) \<times> world" where
  "main to_datetime strftime now w =
     (let w1 = print (Text (replicate 60 CHR ''=''))
                 (print (Text ''TASK 1: DATA EXPLORATION AND ENRICHMENT'')
                   (print (Text (replicate 60 CHR ''='')) w))
      in (case init [''..'', ''data''] w1 of
            (Inl e, w2) \<Rightarrow> (Inl e, w2)
          | (Inr processor, w2) \<Rightarrow>
              (case load_data processor w2 of
                 (Inl e, w3) \<Rightarrow> (Inl e, w3)
               | (Inr (loaded, processor), w3) \<Rightarrow>
                   if \<not> loaded then (Inr (), w3)
                   else
                     let w4 = print (Text (CHR 0x0A # ''Analyzing dataset...'')) w3
                     in (case analyze to_datetime strftime processor of
                           Inl e \<Rightarrow> (Inl e, w4)
                         | Inr a \<Rightarrow>
                             let w5 = print (Text (CHR 0x0A # ''Dataset Summary:'')) w4
                             in (case df processor of
                                   None \<Rightarrow> (Inl (AttributeError ''df''), w5)
                                 | Some d \<Rightarrow>
                                     let w6 = print (TotalRecords (length (rows d))) w5;
                                         w7 = print (RecordTypes (record_counts a)) w6;
                                         w8 = print (UniqueIndicators (unique_indicators_count a)) w7
                                     in (case obs_date_range a of
                                           None \<Rightarrow> (Inl (KeyError ''obs_date_range''), w8)
                                         | Some date_range \<Rightarrow>
                                             let w9 = print (ObservationDateRange date_range) w8;
                                                 template = create_enrichment_template;
                                                 w10 = print (Text (CHR 0x0A # ''Enrichment template created.'')) w9
                                             in (case save_enriched_data processor d ''ethiopia_fi_enriched.csv'' w10 of
                                                   (Inl e, w11) \<Rightarrow> (Inl e, w11)
                                                 | (Inr saved, w11) \<Rightarrow>
                                                     (case generate_report now processor a Map.empty w11 of
                                                        (Inl e, w12) \<Rightarrow> (Inl e, w12)
                                                      | (Inr report_path, w12) \<Rightarrow>
                                                          (Inr (),
                                                           print (Text ([CHR 0x0A, CHR 0xE2, CHR 0x9C, CHR 0x85] @ '' Task 1 processing completed!''))
                                                             (print (ReportGenerated report_path) w12))))))))))"

text \<open>
  The module ends with \<open>if __name__ == "__main__": main()\<close>: the interpreter exits with
  status 0 when \<open>main\<close> returns and with status 1 when an exception leaves it.
\<close>

definition exit_status :: "exn + unit \<Rightarrow> nat" where
  "exit_status r = (case r of Inl e \<Rightarrow> 1 | Inr u \<Rightarrow> 0)"

section \<open>Growth metrics of the dashboard\<close>

text \<open>
  \<open>calculate_growth_metrics\<close> works on whatever numbers the dashboard passes: Python
  ints and floats, numpy floats. What the operators do on them (rounding, overflow to
  infinity, \<open>OverflowError\<close>, \<open>ZeroDivisionError\<close>, a complex power, a \<open>TypeError\<close> on
  comparing a complex number) is not fixed here: the arithmetic is a parameter, each
  operator giving a number or raising. \<open>num_lit\<close> is the number of an integer literal or
  of a length.
\<close>

record 'n arith =
  num_lit :: "int \<Rightarrow> 'n"
  num_sub :: "'n \<Rightarrow> 'n \<Rightarrow> exn + 'n"
  num_mul :: "'n \<Rightarrow> 'n \<Rightarrow> exn + 'n"
  num_truediv :: "'n \<Rightarrow> 'n \<Rightarrow> exn + 'n"
  num_pow :: "'n \<Rightarrow> 'n \<Rightarrow> exn + 'n"
  num_gt :: "'n \<Rightarrow> 'n \<Rightarrow> exn + bool"

text \<open>
  The three assignments of \<open>calculate_growth_metrics\<close> after its guard, in the order in
  which Python evaluates them: \<open>total_growth\<close>, \<open>annual_growth\<close> and \<open>cagr\<close>.
\<close>

definition growth_values ::
  "'n arith \<Rightarrow> 'n \<Rightarrow> 'n list \<Rightarrow> 'y list \<Rightarrow> exn + 'n \<times> 'n \<times> 'n" where
  "growth_values A current_value forecast_values years =
     (case num_sub A (last forecast_values) current_value of
        Inl e \<Rightarrow> Inl e
      | Inr total_growth \<Rightarrow>
          (case num_truediv A total_growth (num_lit A (int (length years))) of
             Inl e \<Rightarrow> Inl e
           | Inr annual_growth \<Rightarrow>
               (case num_truediv A (last forecast_values) current_value of
                  Inl e \<Rightarrow> Inl e
                | Inr ratio \<Rightarrow>
                    (case num_truediv A (num_lit A 1) (num_lit A (int (length years))) of
                       Inl e \<Rightarrow> Inl e
                     | Inr exponent \<Rightarrow>
                         (case num_pow A ratio exponent of
                            Inl e \<Rightarrow> Inl e
                          | Inr factor \<Rightarrow>
                              (case num_sub A factor (num_lit A 1) of
                                 Inl e \<Rightarrow> Inl e
                               | Inr growth \<Rightarrow>
                                   (case num_mul A growth (num_lit A 100) of
                                      Inl e \<Rightarrow> Inl e
                                    | Inr cagr \<Rightarrow>
                                        Inr (total_growth, annual_growth, cagr))))))))"

text \<open>
  \<open>calculate_growth_metrics\<close>. The result dictionary maps each key to a number or to
  Python's \<open>None\<close>. The last entry is \<open>72 / cagr if cagr > 0 else None\<close>: the comparison
  comes first, and the division is evaluated only when it holds.
\<close>

definition calculate_growth_metrics ::
  "'n arith \<Rightarrow> 'n \<Rightarrow> 'n list \<Rightarrow> 'y list \<Rightarrow> exn + (string \<rightharpoonup> 'n option)" where
  "calculate_growth_metrics A current_value forecast_values years =
     (if length forecast_values < 2 then Inr Map.empty
      else
        (case growth_values A current_value forecast_values years of
           Inl e \<Rightarrow> Inl e
         | Inr (total_growth, annual_growth, cagr) \<Rightarrow>
             (case num_gt A cagr (num_lit A 0) of
                Inl e \<Rightarrow> Inl e
              | Inr positive \<Rightarrow>
                  (case (if positive then map_sum id Some (num_truediv A (num_lit A 72) cagr)
                         else Inr None) of
                     Inl e \<Rightarrow> Inl e
                   | Inr doubling_time \<Rightarrow>
                       Inr [''total_growth_pp'' \<mapsto> Some total_growth,
                            ''annual_growth_pp'' \<mapsto> Some annual_growth,
                            ''cagr_percent'' \<mapsto> Some cagr,
                            ''doubling_time'' \<mapsto> doubling_time]))))"

section \<open>Specification-side notions\<close>

text \<open>
  The values of a list at the positions where they occur for the first time: the
  distinct values "in encounter order".
\<close>

definition first_occurrences :: "'a list \<Rightarrow> 'a list" where
  "first_occurrences xs =
     map (\<lambda>i. xs ! i) (filter (\<lambda>i. xs ! i \<notin> set (take i xs)) [0..<length xs])"

text \<open>The indicator codes that are present in the observation rows, in row order.\<close>

definition observation_indicator_codes :: "dataframe \<Rightarrow> val list" where
  "observation_indicator_codes t =
     concat (map (\<lambda>r. if r ''record_type'' = Some (Str ''observation'')
                       then (case r ''indicator_code'' of None \<Rightarrow> [] | Some v \<Rightarrow> [v])
                       else []) (rows t))"

text \<open>
  The dates of the observation rows that parse, in row order: the column of
  \<open>observation_date\<close> cells of the rows whose \<open>record_type\<close> is \<open>observation\<close>, parsed, the
  missing results left out.
\<close>

definition valid_observation_dates :: "(cell list \<Rightarrow> 'd option list) \<Rightarrow> dataframe \<Rightarrow> 'd list" where
  "valid_observation_dates to_datetime t =
     concat (map (\<lambda>d. case d of None \<Rightarrow> [] | Some x \<Rightarrow> [x])
       (to_datetime
         (concat (map (\<lambda>r. if r ''record_type'' = Some (Str ''observation'')
                            then [r ''observation_date''] else []) (rows t)))))"

section \<open>Example inputs\<close>

text \<open>
  A date parser and formatter for the examples: timestamps are numbers \<open>yyyymmdd\<close>, and
  only the two dates of the examples parse.
\<close>

definition sample_to_datetime :: "cell list \<Rightarrow> nat option list" where
  "sample_to_datetime =
     map (\<lambda>c. if c = Some (Str ''2021-06-30'') then Some 20210630
               else if c = Some (Str ''2019-01-01'') then Some 20190101 else None)"

definition sample_strftime :: "nat \<Rightarrow> string" where
  "sample_strftime d =
     (if d = 20210630 then ''2021-06-30'' else if d = 20190101 then ''2019-01-01'' else ''?'')"

text \<open>Three observations, one of them with a date that does not parse, and one event.\<close>

definition sample_frame :: dataframe where
  "sample_frame =
     \<lparr>columns = [''record_type'', ''indicator_code'', ''observation_date''],
      rows =
        [[''record_type'' \<mapsto> Str ''observation'', ''indicator_code'' \<mapsto> Str ''ACC_OWNERSHIP'',
          ''observation_date'' \<mapsto> Str ''2021-06-30''],
         [''record_type'' \<mapsto> Str ''observation'', ''indicator_code'' \<mapsto> Str ''USG_DIGITAL_PAYMENT'',
          ''observation_date'' \<mapsto> Str ''2019-01-01''],
         [''record_type'' \<mapsto> Str ''observation'', ''indicator_code'' \<mapsto> Str ''ACC_OWNERSHIP'',
          ''observation_date'' \<mapsto> Str ''unknown''],
         [''record_type'' \<mapsto> Str ''event'']]\<rparr>"

definition sample_analysis :: analysis where
  "sample_analysis =
     \<lparr>record_counts = [(Str ''observation'', 3), (Str ''event'', 1)],
      obs_date_range = Some (Some ''2019-01-01'', Some ''2021-06-30''),
      unique_indicators_count = 2,
      sample_indicators = [Str ''ACC_OWNERSHIP'', Str ''USG_DIGITAL_PAYMENT''],
      missing_values = [(''indicator_code'', 1), (''observation_date'', 1)]\<rparr>"

text \<open>One observation whose date does not parse, and one event.\<close>

definition undated_frame :: dataframe where
  "undated_frame =
     \<lparr>columns = [''record_type'', ''indicator_code'', ''observation_date''],
      rows =
        [[''record_type'' \<mapsto> Str ''observation'', ''indicator_code'' \<mapsto> Str ''ACC_OWNERSHIP'',
          ''observation_date'' \<mapsto> Str ''unknown''],
         [''record_type'' \<mapsto> Str ''event'']]\<rparr>"

text \<open>A single row whose \<open>record_type\<close> cell is empty.\<close>

definition untyped_frame :: dataframe where
  "untyped_frame =
     \<lparr>columns = [''record_type'', ''indicator_code''],
      rows = [[''indicator_code'' \<mapsto> Str ''ACC_OWNERSHIP'']]\<rparr>"

definition untyped_analysis :: analysis where
  "untyped_analysis =
     \<lparr>record_counts = [],
      obs_date_range = None,
      unique_indicators_count = 0,
      sample_indicators = [],
      missing_values = [(''record_type'', 1)]\<rparr>"

text \<open>
  A table with no \<open>observation_date\<close> column, and one with that column and no
  \<open>indicator_code\<close> column; the only date does not parse.
\<close>

definition dateless_frame :: dataframe where
  "dateless_frame =
     \<lparr>columns = [''record_type'', ''indicator_code''],
      rows =
        [[''record_type'' \<mapsto> Str ''observation'', ''indicator_code'' \<mapsto> Str ''ACC_OWNERSHIP''],
         [''record_type'' \<mapsto> Str ''observation'', ''indicator_code'' \<mapsto> Str ''USG_DIGITAL_PAYMENT''],
         [''record_type'' \<mapsto> Str ''event'']]\<rparr>"

definition dateless_analysis :: analysis where
  "dateless_analysis =
     \<lparr>record_counts = [(Str ''observation'', 2), (Str ''event'', 1)],
      obs_date_range = None,
      unique_indicators_count = 2,
      sample_indicators = [Str ''ACC_OWNERSHIP'', Str ''USG_DIGITAL_PAYMENT''],
      missing_values = [(''indicator_code'', 1)]\<rparr>"

definition codeless_frame :: dataframe where
  "codeless_frame =
     \<lparr>columns = [''record_type'', ''observation_date''],
      rows =
        [[''record_type'' \<mapsto> Str ''observation'', ''observation_date'' \<mapsto> Str ''unknown'']]\<rparr>"

text \<open>A CSV file that has the header \<open>record_type\<close> and no rows.\<close>

definition header_only_frame :: dataframe where
  "header_only_frame = \<lparr>columns = [''record_type''], rows = []\<rparr>"

text \<open>The paths of the processor on its default directory.\<close>

definition unified_data_csv :: path where
  "unified_data_csv = [''..'', ''data'', ''raw'', ''ethiopia_fi_unified_data.csv'']"

definition reference_codes_csv :: path where
  "reference_codes_csv = [''..'', ''data'', ''raw'', ''reference_codes.csv'']"

definition task1_report_json :: path where
  "task1_report_json = [''..'', ''data'', ''processed'', ''task1_report.json'']"

text \<open>The three lines that \<open>main\<close> prints first.\<close>

definition banner :: "message list" where
  "banner =
     [Text (replicate 60 CHR ''=''), Text ''TASK 1: DATA EXPLORATION AND ENRICHMENT'',
      Text (replicate 60 CHR ''='')]"

text \<open>A world with no file at all, and one with the two input files in place.\<close>

definition bare_world :: world where
  "bare_world = \<lparr>fs = \<lparr>files = Map.empty, dirs = {[]}, denied = {}\<rparr>, stdout = []\<rparr>"

definition sample_reference :: dataframe where
  "sample_reference =
     \<lparr>columns = [''code'', ''label''],
      rows = [[''code'' \<mapsto> Str ''ACC_OWNERSHIP'', ''label'' \<mapsto> Str ''Account ownership'']]\<rparr>"

definition sample_world :: world where
  "sample_world =
     \<lparr>fs = \<lparr>files = [unified_data_csv \<mapsto> CsvFile sample_frame,
                       reference_codes_csv \<mapsto> CsvFile sample_reference],
             dirs = {[], [''..''], [''..'', ''data''], [''..'', ''data'', ''raw'']},
             denied = {}\<rparr>,
      stdout = []\<rparr>"

text \<open>The same files, the main one not readable by the process.\<close>

definition locked_world :: world where
  "locked_world = sample_world\<lparr>fs := (fs sample_world)\<lparr>denied := {unified_data_csv}\<rparr>\<rparr>"

text \<open>The main file in place, the reference codes not.\<close>

definition unreferenced_world :: world where
  "unreferenced_world =
     \<lparr>fs = \<lparr>files = [unified_data_csv \<mapsto> CsvFile sample_frame],
             dirs = {[], [''..''], [''..'', ''data''], [''..'', ''data'', ''raw'']},
             denied = {}\<rparr>,
      stdout = []\<rparr>"

text \<open>The processor that \<open>DataProcessor()\<close> builds.\<close>

definition default_processor :: processor where
  "default_processor =
     \<lparr>data_dir = [''..'', ''data''], raw_dir = [''..'', ''data'', ''raw''],
      processed_dir = [''..'', ''data'', ''processed''], df = None, ref_codes = None\<rparr>"

text \<open>Both input files in place, the main table without a date column.\<close>

definition dateless_world :: world where
  "dateless_world =
     \<lparr>fs = \<lparr>files = [unified_data_csv \<mapsto> CsvFile dateless_frame,
                       reference_codes_csv \<mapsto> CsvFile sample_reference],
             dirs = {[], [''..''], [''..'', ''data''], [''..'', ''data'', ''raw'']},
             denied = {}\<rparr>,
      stdout = []\<rparr>"

text \<open>A directory where the main file should be.\<close>

definition misplaced_world :: world where
  "misplaced_world =
     \<lparr>fs = \<lparr>files = [reference_codes_csv \<mapsto> CsvFile sample_reference],
             dirs = {[], [''..''], [''..'', ''data''], [''..'', ''data'', ''raw''],
                     unified_data_csv},
             denied = {}\<rparr>,
      stdout = []\<rparr>"

text \<open>
  An arithmetic for the examples: exact operations on the reals. Division raises on a
  zero divisor, and a power of a negative base is refused.
\<close>

definition exact_arith :: "real arith" where
  "exact_arith =
     \<lparr>num_lit = of_int,
      num_sub = (\<lambda>x y. Inr (x - y)),
      num_mul = (\<lambda>x y. Inr (x * y)),
      num_truediv = (\<lambda>x y. if y = 0 then Inl ZeroDivisionError else Inr (x / y)),
      num_pow = (\<lambda>x y. if x < 0 then Inl ValueError else Inr (x powr y)),
      num_gt = (\<lambda>x y. Inr (y < x))\<rparr>"

section \<open>Series operations: basic facts\<close>

lemma set_dropna: "set (dropna xs) = {v. Some v \<in> set xs}"
  by (induction xs rule: dropna.induct) auto

lemma length_dropna: "length (dropna xs) = length (filter (\<lambda>c. c \<noteq> None) xs)"
  by (induction xs rule: dropna.induct) auto

lemma count_list_dropna: "count_list (dropna xs) v = length (filter (\<lambda>c. c = Some v) xs)"
  by (induction xs rule: dropna.induct) auto

lemma isna_all_dropna: "isna_all xs = (dropna xs = [])"
  by (induction xs rule: dropna.induct) (simp_all add: isna_all_def)

lemma set_unique_from: "set (unique_from seen xs) = set xs - set seen"
  by (induction seen xs rule: unique_from.induct) auto

lemma distinct_unique_from: "distinct (unique_from seen xs)"
  by (induction seen xs rule: unique_from.induct) (auto simp: set_unique_from)

lemma set_unique: "set (unique xs) = set xs"
  by (simp add: unique_def set_unique_from)

lemma distinct_unique: "distinct (unique xs)"
  by (simp add: unique_def distinct_unique_from)

lemma length_unique: "length (unique xs) = card (set xs)"
  using distinct_card [OF distinct_unique, of xs] by (simp add: set_unique)

text \<open>The hash-table walk of \<open>unique\<close> yields the values at their first positions.\<close>

lemma unique_from_index:
  "unique_from seen xs =
     map (\<lambda>i. xs ! i) (filter (\<lambda>i. xs ! i \<notin> set seen \<union> set (take i xs)) [0..<length xs])"
proof (induction xs arbitrary: seen)
  case Nil
  show ?case by simp
next
  case (Cons x xs)
  have upt: "[0..<length (x # xs)] = 0 # map Suc [0..<length xs]"
    by (simp add: upt_conv_Cons map_Suc_upt del: upt_Suc)
  show ?case
  proof (cases "x \<in> set seen")
    case True
    then have "filter (\<lambda>i. xs ! i \<notin> set seen \<and> xs ! i \<noteq> x \<and> xs ! i \<notin> set (take i xs)) l =
        filter (\<lambda>i. xs ! i \<notin> set seen \<and> xs ! i \<notin> set (take i xs)) l" for l
      by (intro filter_cong) auto
    with True show ?thesis
      unfolding upt by (simp add: Cons.IH [of seen] filter_map comp_def)
  next
    case False
    have "filter (\<lambda>i. xs ! i \<noteq> x \<and> xs ! i \<notin> set seen \<and> xs ! i \<notin> set (take i xs)) l =
        filter (\<lambda>i. xs ! i \<notin> set seen \<and> xs ! i \<noteq> x \<and> xs ! i \<notin> set (take i xs)) l" for l
      by (intro filter_cong) auto
    with False show ?thesis
      unfolding upt by (simp add: Cons.IH [of "x # seen"] filter_map comp_def)
  qed
qed

lemma unique_first_occurrences: "unique xs = first_occurrences xs"
  by (simp add: unique_def first_occurrences_def unique_from_index [of "[]"])

text \<open>The counts of the distinct values add up to the number of values.\<close>

lemma sum_counts_unique: "sum_list (map (count_list vs) (unique vs)) = length vs"
proof -
  have "sum_list (map (count_list vs) (unique vs)) = sum (count_list vs) (set (unique vs))"
    by (rule sum_list_distinct_conv_sum_set [OF distinct_unique])
  also have "\<dots> = length vs"
    by (simp add: set_unique sum_count_set)
  finally show ?thesis .
qed

lemma sum_list_snd_sort_key:
  "sum_list (map snd (sort_key f xs)) = sum_list (map snd (xs :: ('a \<times> nat) list))"
proof -
  have "mset (map snd (sort_key f xs)) = mset (map snd xs)"
    by simp
  then have "sum_mset (mset (map snd (sort_key f xs))) = sum_mset (mset (map snd xs))"
    by (rule arg_cong)
  then show ?thesis
    by (simp only: sum_mset_sum_list)
qed

lemma sum_value_counts:
  "sum_list (map snd (value_counts xs)) = length (filter (\<lambda>c. c \<noteq> None) xs)"
  by (simp add: value_counts_def Let_def sum_list_snd_sort_key comp_def sum_counts_unique
      length_dropna)

lemma distinct_fst_sort_key: "distinct (map fst (sort_key f al)) = distinct (map fst al)"
proof -
  have "mset (map fst (sort_key f al)) = mset (map fst al)"
    by simp
  then show ?thesis
    by (rule mset_eq_imp_distinct_iff)
qed

lemma distinct_keys_value_counts: "distinct (map fst (value_counts xs))"
  by (simp add: value_counts_def Let_def distinct_fst_sort_key comp_def distinct_unique)

lemma map_of_value_counts:
  "map_of (value_counts xs) v =
     (if Some v \<in> set xs then Some (length (filter (\<lambda>c. c = Some v) xs)) else None)"
proof -
  let ?vs = "dropna xs"
  let ?al = "map (\<lambda>v. (v, count_list ?vs v)) (unique ?vs)"
  have d: "distinct (map fst ?al)"
    by (simp add: comp_def distinct_unique)
  have "set (value_counts xs) = set ?al"
    by (simp add: value_counts_def Let_def)
  with d distinct_keys_value_counts [of xs] have "map_of (value_counts xs) = map_of ?al"
    by (simp add: map_of_inject_set)
  then show ?thesis
    by (simp add: map_of_map_restrict restrict_map_def set_unique set_dropna count_list_dropna)
qed

lemma series_min_Min:
  "series_min xs = (if dropna xs = [] then None else Some (Min (set (dropna xs))))"
  by (cases "dropna xs") (simp_all add: series_min_def Min.set_eq_fold del: set_simps)

lemma series_max_Max:
  "series_max xs = (if dropna xs = [] then None else Some (Max (set (dropna xs))))"
  by (cases "dropna xs") (simp_all add: series_max_def Max.set_eq_fold del: set_simps)

lemma date_bound_min:
  "date_bound series_min strftime s =
     Inr (if dropna s = [] then None else Some (strftime (Min (set (dropna s)))))"
  by (simp add: date_bound_def isna_all_dropna series_min_Min)

lemma date_bound_max:
  "date_bound series_max strftime s =
     Inr (if dropna s = [] then None else Some (strftime (Max (set (dropna s)))))"
  by (simp add: date_bound_def isna_all_dropna series_max_Max)

section \<open>The dataset analysis: what it returns\<close>

lemma columns_observations: "columns (observations t) = columns t"
  by (simp add: observations_def)

lemma dropna_observation_codes:
  "dropna (map (\<lambda>r. r ''indicator_code'') (rows (observations t))) =
     observation_indicator_codes t"
proof -
  have "dropna (map (\<lambda>r. r ''indicator_code'')
          (filter (\<lambda>r. r ''record_type'' = Some (Str ''observation'')) rs)) =
        concat (map (\<lambda>r. if r ''record_type'' = Some (Str ''observation'')
                       then (case r ''indicator_code'' of None \<Rightarrow> [] | Some v \<Rightarrow> [v])
                       else []) rs)" for rs :: "row list"
    by (induction rs) (auto split: option.splits)
  then show ?thesis
    by (simp add: observations_def observation_indicator_codes_def)
qed

text \<open>
  The analysis raises exactly when one of the two columns it reads without a check is
  not there, and otherwise returns the following dictionary.
\<close>

lemma dropna_concat:
  "dropna xs = concat (map (\<lambda>d. case d of None \<Rightarrow> [] | Some x \<Rightarrow> [x]) xs)"
  by (induction xs rule: dropna.induct) simp_all

lemma dropna_observation_dates:
  "dropna (to_datetime (map (\<lambda>r. r ''observation_date'') (rows (observations t)))) =
     valid_observation_dates to_datetime t"
proof -
  have "map (\<lambda>r. r ''observation_date'')
          (filter (\<lambda>r. r ''record_type'' = Some (Str ''observation'')) rs) =
        concat (map (\<lambda>r. if r ''record_type'' = Some (Str ''observation'')
                       then [r ''observation_date''] else []) rs)" for rs :: "row list"
    by (induction rs) simp_all
  then show ?thesis
    by (simp add: observations_def valid_observation_dates_def dropna_concat)
qed

lemma analyze_dataset_eq:
  assumes "''record_type'' \<in> set (columns t)" and "''indicator_code'' \<in> set (columns t)"
  shows "analyze_dataset to_datetime strftime t =
     Inr \<lparr>record_counts = value_counts (map (\<lambda>r. r ''record_type'') (rows t)),
          obs_date_range =
            (if ''observation_date'' \<in> set (columns t)
             then Some
               (if valid_observation_dates to_datetime t = [] then None
                else Some (strftime (Min (set (valid_observation_dates to_datetime t)))),
                if valid_observation_dates to_datetime t = [] then None
                else Some (strftime (Max (set (valid_observation_dates to_datetime t)))))
             else None),
          unique_indicators_count = length (unique (observation_indicator_codes t)),
          sample_indicators = take 5 (unique (observation_indicator_codes t)),
          missing_values = filter (\<lambda>(c, n). n > 0) (isnull_sum t)\<rparr>"
  using assms
  by (simp add: analyze_dataset_def getitem_def columns_observations date_bound_min
      date_bound_max dropna_observation_dates dropna_observation_codes Let_def)

lemma analyze_dataset_Inr:
  assumes "analyze_dataset to_datetime strftime t = Inr a"
  shows "''record_type'' \<in> set (columns t) \<and> ''indicator_code'' \<in> set (columns t)"
  using assms
  by (auto simp: analyze_dataset_def getitem_def columns_observations Let_def
      split: if_splits sum.splits)

lemma analyze_dataset_no_record_type:
  "''record_type'' \<notin> set (columns t) \<Longrightarrow>
     analyze_dataset to_datetime strftime t = Inl (KeyError ''record_type'')"
  by (simp add: analyze_dataset_def getitem_def)

lemma analyze_dataset_no_indicator_code:
  "''record_type'' \<in> set (columns t) \<Longrightarrow> ''indicator_code'' \<notin> set (columns t) \<Longrightarrow>
     analyze_dataset to_datetime strftime t = Inl (KeyError ''indicator_code'')"
  by (simp add: analyze_dataset_def getitem_def columns_observations date_bound_min
      date_bound_max Let_def)

section \<open>The examples, evaluated\<close>

lemma analyze_sample_frame:
  "analyze_dataset sample_to_datetime sample_strftime sample_frame = Inr sample_analysis"
  by (simp add: analyze_dataset_def getitem_def sample_frame_def sample_analysis_def
      observations_def value_counts_def unique_def isnull_sum_def date_bound_def
      isna_all_def series_min_def series_max_def sample_to_datetime_def sample_strftime_def
      Let_def)

lemma analyze_untyped_frame:
  "analyze_dataset sample_to_datetime sample_strftime untyped_frame = Inr untyped_analysis"
  by (simp add: analyze_dataset_def getitem_def untyped_frame_def untyped_analysis_def
      observations_def value_counts_def unique_def isnull_sum_def Let_def)

section \<open>Claims about the dataset analysis\<close>

lemma record_counts_analyze:
  assumes "analyze_dataset to_datetime strftime t = Inr a"
  shows "record_counts a = value_counts (map (\<lambda>r. r ''record_type'') (rows t))"
  using assms analyze_dataset_Inr [OF assms]
  by (auto simp: analyze_dataset_eq)

text \<open>
  Claim C1, as amended. Whenever the analysis returns, the counts in \<open>record_counts\<close> add
  up to the number of rows whose \<open>record_type\<close> cell is not missing: \<open>value_counts\<close>
  drops the rows with a missing \<open>record_type\<close>. Every value that occurs in the column,
  expected or not, is a key of its own and is counted under itself, and no other key
  exists.
\<close>

theorem record_counts_sum:
  assumes "analyze_dataset to_datetime strftime t = Inr a"
  shows "sum_list (map snd (record_counts a)) =
           length (filter (\<lambda>r. r ''record_type'' \<noteq> None) (rows t))
       \<and> distinct (map fst (record_counts a))
       \<and> (\<forall>v. map_of (record_counts a) v =
             (if \<exists>r \<in> set (rows t). r ''record_type'' = Some v
              then Some (length (filter (\<lambda>r. r ''record_type'' = Some v) (rows t)))
              else None))"
proof -
  note rc = record_counts_analyze [OF assms]
  have "sum_list (map snd (record_counts a)) =
      length (filter (\<lambda>r. r ''record_type'' \<noteq> None) (rows t))"
    by (simp add: rc sum_value_counts filter_map comp_def)
  moreover have "distinct (map fst (record_counts a))"
    by (simp add: rc distinct_keys_value_counts)
  moreover have "map_of (record_counts a) v =
      (if \<exists>r \<in> set (rows t). r ''record_type'' = Some v
       then Some (length (filter (\<lambda>r. r ''record_type'' = Some v) (rows t)))
       else None)" for v
    by (auto simp: rc map_of_value_counts filter_map comp_def image_iff)
  ultimately show ?thesis
    by blast
qed

theorem record_counts_sum_witness:
  "analyze_dataset sample_to_datetime sample_strftime sample_frame = Inr sample_analysis
   \<and> sum_list (map snd (record_counts sample_analysis)) = 4
   \<and> length (filter (\<lambda>r. r ''record_type'' \<noteq> None) (rows sample_frame)) = 4
   \<and> map_of (record_counts sample_analysis) (Str ''event'') = Some 1"
  using analyze_sample_frame record_counts_sum [OF analyze_sample_frame]
  by (simp add: sample_frame_def)

text \<open>
  Claim C1 as written fails: a row with an empty \<open>record_type\<close> cell is a row of the
  table and is counted under no key.
\<close>

theorem record_counts_sum_counterexample:
  "analyze_dataset sample_to_datetime sample_strftime untyped_frame = Inr untyped_analysis
   \<and> sum_list (map snd (record_counts untyped_analysis)) \<noteq> length (rows untyped_frame)"
  using analyze_untyped_frame by (simp add: untyped_analysis_def untyped_frame_def)

text \<open>
  Claim C2. On the table with the single column \<open>record_type\<close> and no rows the analysis
  does not return: it reads the column \<open>indicator_code\<close> without the check that guards
  \<open>observation_date\<close>, and raises \<open>KeyError\<close>.
\<close>

theorem analyze_header_only:
  "analyze_dataset to_datetime strftime header_only_frame = Inl (KeyError ''indicator_code'')"
  by (simp add: analyze_dataset_no_indicator_code header_only_frame_def)

text \<open>
  With the column \<open>indicator_code\<close> in the header, the empty table gives the empty
  counts of C2; the date range is not set, or holds two \<open>None\<close>s when the table has an
  \<open>observation_date\<close> column.
\<close>

lemma analyze_empty_frame:
  assumes "''record_type'' \<in> set cs" and "''indicator_code'' \<in> set cs"
    and "to_datetime [] = []"
  shows "analyze_dataset to_datetime strftime \<lparr>columns = cs, rows = []\<rparr> =
     Inr \<lparr>record_counts = [],
          obs_date_range = (if ''observation_date'' \<in> set cs then Some (None, None) else None),
          unique_indicators_count = 0,
          sample_indicators = [],
          missing_values = []\<rparr>"
  using assms
  by (simp add: analyze_dataset_eq value_counts_def unique_def valid_observation_dates_def
      observations_def observation_indicator_codes_def isnull_sum_def filter_empty_conv)

text \<open>
  What the analysis reports about dates on a table that has the two columns it reads
  without a check. When no observation date parses, the date range is null: the key
  is not set when the table has no \<open>observation_date\<close> column, and both ends are \<open>None\<close>
  otherwise. When some date parses, the two ends are the least and the greatest of the
  dates that parse; the others take no part.
\<close>

lemma analyze_date_range:
  assumes "''record_type'' \<in> set (columns t)" and "''indicator_code'' \<in> set (columns t)"
  shows "\<exists>a. analyze_dataset to_datetime strftime t = Inr a
     \<and> (valid_observation_dates to_datetime t = [] \<longrightarrow>
          obs_date_range a =
            (if ''observation_date'' \<in> set (columns t) then Some (None, None) else None))
     \<and> (valid_observation_dates to_datetime t \<noteq> [] \<longrightarrow>
        ''observation_date'' \<in> set (columns t) \<longrightarrow>
          obs_date_range a =
            Some (Some (strftime (Min (set (valid_observation_dates to_datetime t)))),
                  Some (strftime (Max (set (valid_observation_dates to_datetime t))))))"
  by (simp add: analyze_dataset_eq [OF assms])

text \<open>An observation whose date does not parse: the range holds two \<open>None\<close>s.\<close>

lemma analyze_undated_frame:
  "\<exists>a. analyze_dataset sample_to_datetime sample_strftime undated_frame = Inr a
     \<and> obs_date_range a = Some (None, None)"
  using analyze_date_range [of undated_frame sample_to_datetime sample_strftime]
  by (simp add: undated_frame_def valid_observation_dates_def sample_to_datetime_def)

lemma set_observation_indicator_codes:
  "set (observation_indicator_codes t) =
     {v. \<exists>r \<in> set (rows t). r ''record_type'' = Some (Str ''observation'')
          \<and> r ''indicator_code'' = Some v}"
  by (auto simp: observation_indicator_codes_def split: if_splits option.splits)

text \<open>
  Claim C6. Whenever the analysis returns, \<open>unique_indicators_count\<close> is the number of
  distinct indicator codes that are present in observation rows, rows of other types
  and missing codes not counting, and \<open>sample_indicators\<close> holds the first five of these
  codes in the order in which the rows first show them.
\<close>

theorem indicator_codes_distinct:
  assumes "analyze_dataset to_datetime strftime t = Inr a"
  shows "unique_indicators_count a =
           card {v. \<exists>r \<in> set (rows t). r ''record_type'' = Some (Str ''observation'')
                     \<and> r ''indicator_code'' = Some v}
       \<and> sample_indicators a = take 5 (first_occurrences (observation_indicator_codes t))"
proof -
  from assms analyze_dataset_Inr [OF assms]
  have count: "unique_indicators_count a = length (unique (observation_indicator_codes t))"
    and sample: "sample_indicators a = take 5 (unique (observation_indicator_codes t))"
    by (auto simp: analyze_dataset_eq)
  have "unique_indicators_count a = card (set (observation_indicator_codes t))"
    by (simp only: count length_unique)
  moreover have "sample_indicators a = take 5 (first_occurrences (observation_indicator_codes t))"
    by (simp only: sample unique_first_occurrences)
  ultimately show ?thesis
    by (simp only: set_observation_indicator_codes)
qed

theorem indicator_codes_distinct_witness:
  "analyze_dataset sample_to_datetime sample_strftime sample_frame = Inr sample_analysis
   \<and> unique_indicators_count sample_analysis = 2
   \<and> observation_indicator_codes sample_frame =
       [Str ''ACC_OWNERSHIP'', Str ''USG_DIGITAL_PAYMENT'', Str ''ACC_OWNERSHIP'']
   \<and> sample_indicators sample_analysis = [Str ''ACC_OWNERSHIP'', Str ''USG_DIGITAL_PAYMENT'']"
proof -
  have codes: "observation_indicator_codes sample_frame =
      [Str ''ACC_OWNERSHIP'', Str ''USG_DIGITAL_PAYMENT'', Str ''ACC_OWNERSHIP'']"
    by (simp add: observation_indicator_codes_def sample_frame_def)
  have "first_occurrences [Str ''ACC_OWNERSHIP'', Str ''USG_DIGITAL_PAYMENT'', Str ''ACC_OWNERSHIP''] =
      [Str ''ACC_OWNERSHIP'', Str ''USG_DIGITAL_PAYMENT'']"
    by (simp add: first_occurrences_def upt_rec)
  with codes analyze_sample_frame indicator_codes_distinct [OF analyze_sample_frame] show ?thesis
    by (simp add: sample_analysis_def)
qed

text \<open>
  Claim C8. Whenever the analysis returns, every item of \<open>missing_values\<close> is a column of
  the table with its number of missing cells, and that number is positive; the columns
  with a missing cell are all there.
\<close>

theorem missing_values_positive:
  assumes "analyze_dataset to_datetime strftime t = Inr a"
  shows "(\<forall>(c, n) \<in> set (missing_values a).
            0 < n \<and> c \<in> set (columns t) \<and> n = length (filter (\<lambda>r. r c = None) (rows t)))
       \<and> (\<forall>c \<in> set (columns t). (\<exists>r \<in> set (rows t). r c = None) \<longrightarrow>
            (c, length (filter (\<lambda>r. r c = None) (rows t))) \<in> set (missing_values a))"
  using assms analyze_dataset_Inr [OF assms]
  by (auto simp: analyze_dataset_eq isnull_sum_def filter_empty_conv)

theorem missing_values_positive_witness:
  "analyze_dataset sample_to_datetime sample_strftime sample_frame = Inr sample_analysis
   \<and> missing_values sample_analysis = [(''indicator_code'', 1), (''observation_date'', 1)]
   \<and> (''indicator_code'', length (filter (\<lambda>r. r ''indicator_code'' = None) (rows sample_frame)))
       \<in> set (missing_values sample_analysis)
   \<and> 0 < length (filter (\<lambda>r. r ''indicator_code'' = None) (rows sample_frame))"
proof -
  have col: "''indicator_code'' \<in> set (columns sample_frame)"
    and row: "\<exists>r \<in> set (rows sample_frame). r ''indicator_code'' = None"
    by (simp_all add: sample_frame_def)
  from missing_values_positive [OF analyze_sample_frame] col row
  have item: "(''indicator_code'', length (filter (\<lambda>r. r ''indicator_code'' = None) (rows sample_frame)))
      \<in> set (missing_values sample_analysis)"
    by blast
  with missing_values_positive [OF analyze_sample_frame]
  have "0 < length (filter (\<lambda>r. r ''indicator_code'' = None) (rows sample_frame))"
    by fast
  moreover have "missing_values sample_analysis =
      [(''indicator_code'', 1), (''observation_date'', 1)]"
    by (simp add: sample_analysis_def)
  ultimately show ?thesis
    using analyze_sample_frame item by (intro conjI)
qed

section \<open>Claims about the report\<close>

text \<open>
  Claim C5. The report built from an empty \<open>new_records\<close> has the three counts of its
  enrichment summary at zero. More generally a key that is not in \<open>new_records\<close> counts
  as zero, and a key that is there counts the records listed under it. The report is
  built by a total function: no length is taken of something that is not there.
\<close>

theorem report_default_counts:
  "enrichment_summary (report_dict now a Map.empty) =
     \<lparr>new_observations = 0, new_events = 0, new_impact_links = 0\<rparr>
   \<and> (new_records ''observations'' = None \<longrightarrow>
        new_observations (enrichment_summary (report_dict now a new_records)) = 0)
   \<and> (new_records ''events'' = None \<longrightarrow>
        new_events (enrichment_summary (report_dict now a new_records)) = 0)
   \<and> (new_records ''impact_links'' = None \<longrightarrow>
        new_impact_links (enrichment_summary (report_dict now a new_records)) = 0)
   \<and> (\<forall>rs. new_records ''observations'' = Some rs \<longrightarrow>
        new_observations (enrichment_summary (report_dict now a new_records)) = length rs)
   \<and> (\<forall>rs. new_records ''events'' = Some rs \<longrightarrow>
        new_events (enrichment_summary (report_dict now a new_records)) = length rs)
   \<and> (\<forall>rs. new_records ''impact_links'' = Some rs \<longrightarrow>
        new_impact_links (enrichment_summary (report_dict now a new_records)) = length rs)"
  by (simp add: report_dict_def len_get_def)

theorem report_default_counts_witness:
  "[''events'' \<mapsto> [Map.empty :: row]] ''observations'' = None
   \<and> [''events'' \<mapsto> [Map.empty :: row]] ''impact_links'' = None
   \<and> [''events'' \<mapsto> [Map.empty :: row]] ''events'' = Some [Map.empty]
   \<and> enrichment_summary (report_dict ''2026-01-01T00:00:00'' sample_analysis [''events'' \<mapsto> [Map.empty]]) =
       \<lparr>new_observations = 0, new_events = 1, new_impact_links = 0\<rparr>
   \<and> [''observations'' \<mapsto> [Map.empty :: row], ''impact_links'' \<mapsto> [Map.empty, Map.empty]]
         ''events'' = None
   \<and> enrichment_summary (report_dict ''2026-01-01T00:00:00'' sample_analysis
         [''observations'' \<mapsto> [Map.empty], ''impact_links'' \<mapsto> [Map.empty, Map.empty]]) =
       \<lparr>new_observations = 1, new_events = 0, new_impact_links = 2\<rparr>"
proof -
  let ?n = "[''events'' \<mapsto> [Map.empty :: row]]"
  let ?s = "enrichment_summary (report_dict ''2026-01-01T00:00:00'' sample_analysis ?n)"
  have k: "?n ''observations'' = None" "?n ''impact_links'' = None" "?n ''events'' = Some [Map.empty]"
    by simp_all
  from report_default_counts [of "''2026-01-01T00:00:00''" sample_analysis ?n] k
  have "new_observations ?s = 0" "new_events ?s = 1" "new_impact_links ?s = 0"
    by simp_all
  then have 1: "?s = \<lparr>new_observations = 0, new_events = 1, new_impact_links = 0\<rparr>"
    by simp
  let ?n' = "[''observations'' \<mapsto> [Map.empty :: row], ''impact_links'' \<mapsto> [Map.empty, Map.empty]]"
  let ?s' = "enrichment_summary (report_dict ''2026-01-01T00:00:00'' sample_analysis ?n')"
  have k': "?n' ''events'' = None" "?n' ''observations'' = Some [Map.empty]"
      "?n' ''impact_links'' = Some [Map.empty, Map.empty]"
    by simp_all
  from report_default_counts [of "''2026-01-01T00:00:00''" sample_analysis ?n'] k'
  have "new_observations ?s' = 1" "new_events ?s' = 0" "new_impact_links ?s' = 2"
    by simp_all
  then have 2: "?s' = \<lparr>new_observations = 1, new_events = 0, new_impact_links = 2\<rparr>"
    by simp
  from k 1 k'(1) 2 show ?thesis
    by (intro conjI)
qed

text \<open>
  Claim C9. Two reports built from the same analysis and the same \<open>new_records\<close> at two
  times agree on every field but \<open>generated_date\<close>, which holds the time of the call:
  with the same date written into both they are the same report. Written at the two
  times in the same world, the two reports go to the same path, or fail with the same
  error.
\<close>

theorem report_deterministic:
  "dataset_analysis (report_dict now1 a new_records) = dataset_analysis (report_dict now2 a new_records)
   \<and> enrichment_summary (report_dict now1 a new_records) =
       enrichment_summary (report_dict now2 a new_records)
   \<and> data_quality_issues (report_dict now1 a new_records) =
       data_quality_issues (report_dict now2 a new_records)
   \<and> recommendations (report_dict now1 a new_records) =
       recommendations (report_dict now2 a new_records)
   \<and> (report_dict now1 a new_records)\<lparr>generated_date := g\<rparr> =
       (report_dict now2 a new_records)\<lparr>generated_date := g\<rparr>
   \<and> generated_date (report_dict now1 a new_records) = now1
   \<and> generated_date (report_dict now2 a new_records) = now2
   \<and> fst (generate_report now1 self a new_records w) =
       fst (generate_report now2 self a new_records w)"
  by (simp add: report_dict_def generate_report_def write_file_def Let_def)

section \<open>Claims about files\<close>

lemma mkdir_parents_Inr:
  assumes "mkdir_parents p f = Inr f'"
  shows "files f' = files f \<and> denied f' = denied f \<and> dirs f' = dirs f \<union> set (prefixes p)"
  using assms by (auto simp: mkdir_parents_def split: if_splits)

lemma read_csv_cong:
  assumes "files f' = files f" and "denied f' = denied f" and "(p \<in> dirs f') = (p \<in> dirs f)"
  shows "read_csv p f' = read_csv p f"
  using assms by (simp add: read_csv_def under_file_def split: option.splits)

lemma init_Inr:
  assumes "init dir w = (Inr self, w1)"
  shows "self = \<lparr>data_dir = dir, raw_dir = dir @ [''raw''],
                 processed_dir = dir @ [''processed''], df = None, ref_codes = None\<rparr>
       \<and> mkdir_parents (dir @ [''processed'']) (fs w) = Inr (fs w1)
       \<and> stdout w1 = stdout w"
  using assms by (auto simp: init_def Let_def split: sum.splits)

text \<open>
  Claim C7, as amended. \<open>generate_report\<close> takes no path: it writes the report with
  indent 2 to \<open>task1_report.json\<close> in the \<open>processed\<close> directory under the directory that
  the caller gave when building the processor, and returns that path, leaving every
  other file as it was. It creates no directory: building the processor has created
  \<open>processed\<close> with all its ancestors. When the file cannot be written (an ancestor is a
  regular file, the directory is not there, the path is a directory or is denied), the
  error reaches the caller and nothing is written.
\<close>

theorem generate_report_persists:
  assumes "init dir w = (Inr self, w1)"
  shows "processed_dir self = dir @ [''processed'']
       \<and> set (prefixes (processed_dir self)) \<subseteq> dirs (fs w1)
       \<and> dirs (fs (snd (generate_report now self a new_records w2))) = dirs (fs w2)
       \<and> generate_report now self a new_records w2 =
           (let target = dir @ [''processed'', ''task1_report.json'']
            in if under_file target (fs w2)
               then (Inl (NotADirectoryError target), w2)
               else if dir @ [''processed''] \<notin> dirs (fs w2)
               then (Inl (FileNotFoundError target), w2)
               else if target \<in> dirs (fs w2)
               then (Inl (IsADirectoryError target), w2)
               else if target \<in> denied (fs w2)
               then (Inl (PermissionError target), w2)
               else (Inr target,
                     w2\<lparr>fs := (fs w2)\<lparr>files :=
                       (files (fs w2))(target \<mapsto> JsonFile 2 (report_dict now a new_records))\<rparr>\<rparr>))"
proof -
  note i = init_Inr [OF assms]
  from i have p: "processed_dir self = dir @ [''processed'']"
    by simp
  from i mkdir_parents_Inr [of "dir @ [''processed'']" "fs w" "fs w1"]
  have d: "set (prefixes (processed_dir self)) \<subseteq> dirs (fs w1)"
    by (auto simp: p)
  have b: "butlast (dir @ [''processed'', ''task1_report.json'']) = dir @ [''processed'']"
    by (simp add: butlast_append)
  have g: "generate_report now self a new_records w2 =
           (let target = dir @ [''processed'', ''task1_report.json'']
            in if under_file target (fs w2)
               then (Inl (NotADirectoryError target), w2)
               else if dir @ [''processed''] \<notin> dirs (fs w2)
               then (Inl (FileNotFoundError target), w2)
               else if target \<in> dirs (fs w2)
               then (Inl (IsADirectoryError target), w2)
               else if target \<in> denied (fs w2)
               then (Inl (PermissionError target), w2)
               else (Inr target,
                     w2\<lparr>fs := (fs w2)\<lparr>files :=
                       (files (fs w2))(target \<mapsto> JsonFile 2 (report_dict now a new_records))\<rparr>\<rparr>))"
    using b by (simp add: generate_report_def write_file_def p Let_def)
  have "dirs (fs (snd (generate_report now self a new_records w2))) = dirs (fs w2)"
    unfolding g by (simp add: Let_def)
  with p d g show ?thesis
    by (intro conjI)
qed

lemma init_bare_world:
  "init [''..'', ''data''] bare_world =
     (Inr default_processor,
      bare_world\<lparr>fs := (fs bare_world)\<lparr>dirs :=
        {[], [''..''], [''..'', ''data''], [''..'', ''data'', ''processed'']}\<rparr>\<rparr>)"
  by (auto simp: init_def mkdir_parents_def under_file_def bare_world_def default_processor_def
      Let_def)

theorem generate_report_persists_witness:
  "init [''..'', ''data''] bare_world =
     (Inr default_processor,
      bare_world\<lparr>fs := (fs bare_world)\<lparr>dirs :=
        {[], [''..''], [''..'', ''data''], [''..'', ''data'', ''processed'']}\<rparr>\<rparr>)
   \<and> generate_report ''2026-01-01T00:00:00'' default_processor sample_analysis Map.empty
       (bare_world\<lparr>fs := (fs bare_world)\<lparr>dirs :=
          {[], [''..''], [''..'', ''data''], [''..'', ''data'', ''processed'']}\<rparr>\<rparr>) =
     (Inr task1_report_json,
      bare_world\<lparr>fs := \<lparr>files = [task1_report_json \<mapsto>
                 JsonFile 2 (report_dict ''2026-01-01T00:00:00'' sample_analysis Map.empty)],
               dirs = {[], [''..''], [''..'', ''data''], [''..'', ''data'', ''processed'']},
               denied = {}\<rparr>\<rparr>)"
  using init_bare_world
    generate_report_persists [OF init_bare_world, of "''2026-01-01T00:00:00''" sample_analysis Map.empty
      "bare_world\<lparr>fs := (fs bare_world)\<lparr>dirs :=
          {[], [''..''], [''..'', ''data''], [''..'', ''data'', ''processed'']}\<rparr>\<rparr>"]
  by (simp add: bare_world_def task1_report_json_def under_file_def Let_def)

text \<open>
  Claim C7 as written fails: called where the \<open>processed\<close> directory is missing,
  \<open>generate_report\<close> creates no directory and writes nothing; it raises.
\<close>

theorem generate_report_persists_counterexample:
  "[''..'', ''data'', ''processed''] \<notin> dirs (fs bare_world)
   \<and> generate_report ''2026-01-01T00:00:00'' default_processor sample_analysis Map.empty
       bare_world =
     (Inl (FileNotFoundError task1_report_json), bare_world)"
  by (simp add: generate_report_def write_file_def under_file_def default_processor_def
      bare_world_def task1_report_json_def Let_def)

section \<open>Claims about the run\<close>

lemma fs_print: "fs (print m w) = fs w"
  by (simp add: print_def)

lemma stdout_print: "stdout (print m w) = stdout w @ [m]"
  by (simp add: print_def)

text \<open>What \<open>load_data\<close> does when reading the first or the second file fails with \<open>e\<close>.\<close>

lemma load_data_error:
  assumes "read_csv (raw_dir self @ [''ethiopia_fi_unified_data.csv'']) (fs w) = Inl e
     \<or> (\<exists>d. read_csv (raw_dir self @ [''ethiopia_fi_unified_data.csv'']) (fs w) = Inr d
           \<and> read_csv (raw_dir self @ [''reference_codes.csv'']) (fs w) = Inl e)"
  shows "\<exists>self'. load_data self w =
     (case e of
        FileNotFoundError p \<Rightarrow>
          (Inr (False, self'),
           w\<lparr>stdout := stdout w @ [Text ''Loading datasets...'', ErrorLoadingData e]\<rparr>)
      | _ \<Rightarrow> (Inl e, w\<lparr>stdout := stdout w @ [Text ''Loading datasets...'']\<rparr>))"
  using assms
  by (auto simp: load_data_def load_data_except_def print_def Let_def split: exn.splits)

text \<open>
  Claim C3, as amended. Let reading one of the two input files fail with the error \<open>e\<close>,
  which names the path. The run then writes no file, so no report, and prints nothing
  after the attempt to load: it stops before the analysis. When nothing is at the path
  (\<open>FileNotFoundError\<close>), \<open>load_data\<close> catches the error and prints it, \<open>main\<close> returns, and
  the exit status is 0. With any other error (the path is a directory or lies under a
  regular file, the file may not be opened or is not a table) the error leaves \<open>main\<close>
  and the exit status is 1. (When the processed directory cannot be created the run
  stops even earlier, with that error.)
\<close>

theorem main_input_unavailable:
  assumes "read_csv unified_data_csv (fs w) = Inl e
     \<or> (\<exists>d. read_csv unified_data_csv (fs w) = Inr d
           \<and> read_csv reference_codes_csv (fs w) = Inl e)"
  shows "files (fs (snd (main to_datetime strftime now w))) = files (fs w)
       \<and> (\<exists>p. p \<in> {unified_data_csv, reference_codes_csv}
              \<and> e \<in> {FileNotFoundError p, NotADirectoryError p, IsADirectoryError p,
                     PermissionError p, ParserError p})
       \<and> (case mkdir_parents [''..'', ''data'', ''processed''] (fs w) of
            Inl x \<Rightarrow>
              fst (main to_datetime strftime now w) = Inl x
              \<and> stdout (snd (main to_datetime strftime now w)) = stdout w @ banner
          | Inr f \<Rightarrow>
              (case e of
                 FileNotFoundError p \<Rightarrow>
                   fst (main to_datetime strftime now w) = Inr ()
                   \<and> exit_status (fst (main to_datetime strftime now w)) = 0
                   \<and> stdout (snd (main to_datetime strftime now w)) =
                       stdout w @ banner @ [Text ''Loading datasets...'', ErrorLoadingData e]
               | _ \<Rightarrow>
                   fst (main to_datetime strftime now w) = Inl e
                   \<and> exit_status (fst (main to_datetime strftime now w)) = 1
                   \<and> stdout (snd (main to_datetime strftime now w)) =
                       stdout w @ banner @ [Text ''Loading datasets...'']))"
proof -
  let ?w1 = "print (Text (replicate 60 CHR ''=''))
               (print (Text ''TASK 1: DATA EXPLORATION AND ENRICHMENT'')
                 (print (Text (replicate 60 CHR ''='')) w))"
  have w1: "fs ?w1 = fs w" "stdout ?w1 = stdout w @ banner"
    by (simp_all add: print_def banner_def)
  have cause: "\<exists>p. p \<in> {unified_data_csv, reference_codes_csv}
      \<and> e \<in> {FileNotFoundError p, NotADirectoryError p, IsADirectoryError p,
                     PermissionError p, ParserError p}"
    using assms by (auto simp: read_csv_def split: option.splits if_splits content.splits)
  show ?thesis
  proof (cases "mkdir_parents [''..'', ''data'', ''processed''] (fs w)")
    case (Inl x)
    then have "main to_datetime strftime now w = (Inl x, ?w1)"
      by (simp add: main_def init_def w1 Let_def)
    with Inl cause show ?thesis
      by (simp add: w1)
  next
    case (Inr f)
    let ?self = "\<lparr>data_dir = [''..'', ''data''], raw_dir = [''..'', ''data'', ''raw''],
        processed_dir = [''..'', ''data'', ''processed''], df = None, ref_codes = None\<rparr>"
    let ?w2 = "?w1\<lparr>fs := f\<rparr>"
    from Inr have i: "init [''..'', ''data''] ?w1 = (Inr ?self, ?w2)"
      by (simp add: init_def w1 Let_def)
    from mkdir_parents_Inr [OF Inr] have f: "files f = files (fs w)" "denied f = denied (fs w)"
      and d: "dirs f = dirs (fs w) \<union> set (prefixes [''..'', ''data'', ''processed''])"
      by simp_all
    have r: "read_csv p (fs ?w2) = read_csv p (fs w)"
      if "p = unified_data_csv \<or> p = reference_codes_csv" for p
      using that
      by (intro read_csv_cong) (auto simp: f d unified_data_csv_def reference_codes_csv_def)
    have "read_csv (raw_dir ?self @ [''ethiopia_fi_unified_data.csv'']) (fs ?w2) = Inl e
      \<or> (\<exists>d. read_csv (raw_dir ?self @ [''ethiopia_fi_unified_data.csv'']) (fs ?w2) = Inr d
           \<and> read_csv (raw_dir ?self @ [''reference_codes.csv'']) (fs ?w2) = Inl e)"
      using assms r [of unified_data_csv] r [of reference_codes_csv]
      by (simp add: unified_data_csv_def reference_codes_csv_def)
    from load_data_error [OF this] obtain self' where l: "load_data ?self ?w2 =
      (case e of
        FileNotFoundError p \<Rightarrow>
          (Inr (False, self'),
           ?w2\<lparr>stdout := stdout ?w2 @ [Text ''Loading datasets...'', ErrorLoadingData e]\<rparr>)
      | _ \<Rightarrow> (Inl e, ?w2\<lparr>stdout := stdout ?w2 @ [Text ''Loading datasets...'']\<rparr>))"
      by blast
    have m: "main to_datetime strftime now w =
      (case e of
        FileNotFoundError p \<Rightarrow>
          (Inr (),
           ?w2\<lparr>stdout := stdout ?w2 @ [Text ''Loading datasets...'', ErrorLoadingData e]\<rparr>)
      | _ \<Rightarrow> (Inl e, ?w2\<lparr>stdout := stdout ?w2 @ [Text ''Loading datasets...'']\<rparr>))"
      by (cases e) (simp_all add: main_def Let_def i l)
    have s: "stdout ?w2 = stdout w @ banner"
      by (simp add: w1)
    show ?thesis
      using Inr cause unfolding m
      by (cases e) (simp_all add: f s exit_status_def)
  qed
qed

section \<open>The example runs\<close>

lemma na_filter_sample_frame: "na_filter sample_frame = sample_frame"
  by (auto simp: na_filter_def sample_frame_def na_cell_def na_values_def fun_eq_iff)

lemma na_filter_sample_reference: "na_filter sample_reference = sample_reference"
  by (auto simp: na_filter_def sample_reference_def na_cell_def na_values_def fun_eq_iff)

lemma na_filter_dateless_frame: "na_filter dateless_frame = dateless_frame"
  by (auto simp: na_filter_def dateless_frame_def na_cell_def na_values_def fun_eq_iff)

text \<open>With both input files in place the run goes through and writes the report.\<close>

lemma main_sample_world:
  "fst (main sample_to_datetime sample_strftime ''2026-01-01T00:00:00'' sample_world) = Inr ()
   \<and> files (fs (snd (main sample_to_datetime sample_strftime ''2026-01-01T00:00:00'' sample_world)))
         task1_report_json =
       Some (JsonFile 2 (report_dict ''2026-01-01T00:00:00'' sample_analysis Map.empty))
   \<and> last (stdout (snd (main sample_to_datetime sample_strftime ''2026-01-01T00:00:00'' sample_world))) =
       Text ([CHR 0x0A, CHR 0xE2, CHR 0x9C, CHR 0x85] @ '' Task 1 processing completed!'')"
proof -
  let ?f = "(fs sample_world)\<lparr>dirs := dirs (fs sample_world) \<union>
      set (prefixes [''..'', ''data'', ''processed''])\<rparr>"
  have i: "init [''..'', ''data''] w = (Inr default_processor, w\<lparr>fs := ?f\<rparr>)"
    if "fs w = fs sample_world" for w
    using that
    by (simp add: init_def mkdir_parents_def under_file_def sample_world_def
        default_processor_def unified_data_csv_def reference_codes_csv_def Let_def)
  have r: "read_csv [''..'', ''data'', ''raw'', ''ethiopia_fi_unified_data.csv''] ?f = Inr sample_frame"
      "read_csv [''..'', ''data'', ''raw'', ''reference_codes.csv''] ?f = Inr sample_reference"
    by (simp_all add: read_csv_def under_file_def sample_world_def unified_data_csv_def
        reference_codes_csv_def na_filter_sample_frame na_filter_sample_reference)
  have l: "load_data default_processor w =
      (Inr (True, default_processor\<lparr>df := Some sample_frame, ref_codes := Some sample_reference\<rparr>),
       print (ReferenceCodes 1 2) (print (MainDataset 4 3) (print (Text ''Loading datasets...'') w)))"
    if "fs w = ?f" for w
  proof -
    have "shape sample_frame = (4, 3)" "shape sample_reference = (1, 2)"
      by (simp_all add: shape_def sample_frame_def sample_reference_def)
    with that r show ?thesis
      by (simp add: load_data_def fs_print default_processor_def Let_def)
  qed
  have a: "analyze sample_to_datetime sample_strftime
      (default_processor\<lparr>df := Some sample_frame, ref_codes := Some sample_reference\<rparr>) =
      Inr sample_analysis"
    by (simp add: analyze_def analyze_sample_frame)
  show ?thesis
    apply (simp add: main_def i l a Let_def fs_print sample_analysis_def)
    apply (simp add: save_enriched_data_def generate_report_def write_file_def under_file_def
        default_processor_def sample_world_def task1_report_json_def print_def
        unified_data_csv_def reference_codes_csv_def Let_def)
    done
qed

lemma analyze_dateless_frame:
  "analyze_dataset to_datetime strftime dateless_frame = Inr dateless_analysis"
  by (simp add: analyze_dataset_def getitem_def dateless_frame_def dateless_analysis_def
      observations_def value_counts_def unique_def isnull_sum_def Let_def)

text \<open>
  Claim C4. The claim fails on the code. On a table that has no \<open>observation_date\<close>
  column no observation row has a date that parses, and the analysis leaves the key
  \<open>obs_date_range\<close> out, as its check of the column intends. \<open>main\<close> then reads the key
  without a check: the run stops with \<open>KeyError\<close>, exit status 1, and writes no report.
  And on a table that has no \<open>indicator_code\<close> column, dates that do not parse or not,
  the analysis itself stops with \<open>KeyError\<close>, as under C2.
\<close>

theorem main_without_date_column:
  "analyze_dataset to_datetime strftime dateless_frame = Inr dateless_analysis
   \<and> obs_date_range dateless_analysis = None
   \<and> fst (main to_datetime strftime now dateless_world) = Inl (KeyError ''obs_date_range'')
   \<and> exit_status (fst (main to_datetime strftime now dateless_world)) = 1
   \<and> files (fs (snd (main to_datetime strftime now dateless_world))) = files (fs dateless_world)
   \<and> analyze_dataset to_datetime strftime codeless_frame = Inl (KeyError ''indicator_code'')"
proof -
  let ?f = "(fs dateless_world)\<lparr>dirs := dirs (fs dateless_world) \<union>
      set (prefixes [''..'', ''data'', ''processed''])\<rparr>"
  have i: "init [''..'', ''data''] w = (Inr default_processor, w\<lparr>fs := ?f\<rparr>)"
    if "fs w = fs dateless_world" for w
    using that
    by (simp add: init_def mkdir_parents_def under_file_def dateless_world_def
        default_processor_def unified_data_csv_def reference_codes_csv_def Let_def)
  have r: "read_csv [''..'', ''data'', ''raw'', ''ethiopia_fi_unified_data.csv''] ?f = Inr dateless_frame"
      "read_csv [''..'', ''data'', ''raw'', ''reference_codes.csv''] ?f = Inr sample_reference"
    by (simp_all add: read_csv_def under_file_def dateless_world_def unified_data_csv_def
        reference_codes_csv_def na_filter_dateless_frame na_filter_sample_reference)
  have l: "load_data default_processor w =
      (Inr (True, default_processor\<lparr>df := Some dateless_frame, ref_codes := Some sample_reference\<rparr>),
       print (ReferenceCodes 1 2) (print (MainDataset 3 2) (print (Text ''Loading datasets...'') w)))"
    if "fs w = ?f" for w
  proof -
    have "shape dateless_frame = (3, 2)" "shape sample_reference = (1, 2)"
      by (simp_all add: shape_def dateless_frame_def sample_reference_def)
    with that r show ?thesis
      by (simp add: load_data_def fs_print default_processor_def Let_def)
  qed
  have a: "analyze to_datetime strftime
      (default_processor\<lparr>df := Some dateless_frame, ref_codes := Some sample_reference\<rparr>) =
      Inr dateless_analysis"
    by (simp add: analyze_def analyze_dateless_frame)
  have n: "obs_date_range dateless_analysis = None"
    by (simp add: dateless_analysis_def)
  have m: "fst (main to_datetime strftime now dateless_world) = Inl (KeyError ''obs_date_range'')
      \<and> files (fs (snd (main to_datetime strftime now dateless_world))) = files (fs dateless_world)"
    by (simp add: main_def i l a n Let_def fs_print)
  have c: "analyze_dataset to_datetime strftime codeless_frame = Inl (KeyError ''indicator_code'')"
    by (simp add: analyze_dataset_no_indicator_code codeless_frame_def)
  from m have "exit_status (fst (main to_datetime strftime now dateless_world)) = 1"
    by (simp add: exit_status_def)
  with analyze_dateless_frame n m c show ?thesis
    by (intro conjI) simp_all
qed

lemma main_bare_world:
  "main sample_to_datetime sample_strftime ''2026-01-01T00:00:00'' bare_world =
     (Inr (),
      \<lparr>fs = \<lparr>files = Map.empty,
              dirs = {[], [''..''], [''..'', ''data''], [''..'', ''data'', ''processed'']},
              denied = {}\<rparr>,
       stdout = banner @ [Text ''Loading datasets...'',
                  ErrorLoadingData (FileNotFoundError unified_data_csv)]\<rparr>)"
  by (auto simp: main_def init_def mkdir_parents_def under_file_def load_data_def
      load_data_except_def read_csv_def print_def bare_world_def banner_def
      unified_data_csv_def Let_def)

text \<open>
  Claim C3 as written fails: with no input file in place, \<open>main\<close> returns and the exit
  status is 0.
\<close>

theorem main_input_unavailable_counterexample:
  "files (fs bare_world) unified_data_csv = None
   \<and> read_csv unified_data_csv (fs bare_world) = Inl (FileNotFoundError unified_data_csv)
   \<and> fst (main sample_to_datetime sample_strftime ''2026-01-01T00:00:00'' bare_world) = Inr ()
   \<and> exit_status (fst (main sample_to_datetime sample_strftime ''2026-01-01T00:00:00'' bare_world)) = 0"
  by (simp add: main_bare_world exit_status_def)
    (simp add: read_csv_def under_file_def bare_world_def unified_data_csv_def)

theorem main_input_unavailable_witness:
  "read_csv unified_data_csv (fs bare_world) = Inl (FileNotFoundError unified_data_csv)
   \<and> files (fs (snd (main sample_to_datetime sample_strftime ''2026-01-01T00:00:00'' bare_world))) =
       Map.empty
   \<and> fst (main sample_to_datetime sample_strftime ''2026-01-01T00:00:00'' bare_world) = Inr ()
   \<and> read_csv unified_data_csv (fs unreferenced_world) = Inr sample_frame
   \<and> read_csv reference_codes_csv (fs unreferenced_world) =
       Inl (FileNotFoundError reference_codes_csv)
   \<and> files (fs (snd (main sample_to_datetime sample_strftime ''2026-01-01T00:00:00''
         unreferenced_world))) = files (fs unreferenced_world)
   \<and> fst (main sample_to_datetime sample_strftime ''2026-01-01T00:00:00'' unreferenced_world) =
       Inr ()
   \<and> stdout (snd (main sample_to_datetime sample_strftime ''2026-01-01T00:00:00''
         unreferenced_world)) =
       banner @ [Text ''Loading datasets...'',
         ErrorLoadingData (FileNotFoundError reference_codes_csv)]
   \<and> read_csv unified_data_csv (fs misplaced_world) = Inl (IsADirectoryError unified_data_csv)
   \<and> fst (main sample_to_datetime sample_strftime ''2026-01-01T00:00:00'' misplaced_world) =
       Inl (IsADirectoryError unified_data_csv)
   \<and> exit_status (fst (main sample_to_datetime sample_strftime ''2026-01-01T00:00:00''
         misplaced_world)) = 1
   \<and> read_csv unified_data_csv (fs locked_world) = Inl (PermissionError unified_data_csv)
   \<and> files (fs (snd (main sample_to_datetime sample_strftime ''2026-01-01T00:00:00'' locked_world))) =
       files (fs locked_world)
   \<and> fst (main sample_to_datetime sample_strftime ''2026-01-01T00:00:00'' locked_world) =
       Inl (PermissionError unified_data_csv)
   \<and> exit_status (fst (main sample_to_datetime sample_strftime ''2026-01-01T00:00:00'' locked_world)) = 1"
proof -
  have b: "read_csv unified_data_csv (fs bare_world) = Inl (FileNotFoundError unified_data_csv)"
    by (simp add: read_csv_def under_file_def bare_world_def unified_data_csv_def)
  have bm: "mkdir_parents [''..'', ''data'', ''processed''] (fs bare_world) =
      Inr ((fs bare_world)\<lparr>dirs := dirs (fs bare_world) \<union> set (prefixes [''..'', ''data'', ''processed''])\<rparr>)"
    by (simp add: mkdir_parents_def under_file_def bare_world_def)
  have u: "read_csv unified_data_csv (fs unreferenced_world) = Inr sample_frame"
      "read_csv reference_codes_csv (fs unreferenced_world) =
        Inl (FileNotFoundError reference_codes_csv)"
    by (simp_all add: read_csv_def under_file_def unreferenced_world_def unified_data_csv_def
        reference_codes_csv_def na_filter_sample_frame)
  have um: "mkdir_parents [''..'', ''data'', ''processed''] (fs unreferenced_world) =
      Inr ((fs unreferenced_world)\<lparr>dirs := dirs (fs unreferenced_world) \<union>
        set (prefixes [''..'', ''data'', ''processed''])\<rparr>)"
    by (simp add: mkdir_parents_def under_file_def unreferenced_world_def unified_data_csv_def)
  have us: "stdout unreferenced_world = []"
    by (simp add: unreferenced_world_def)
  have l: "read_csv unified_data_csv (fs locked_world) = Inl (PermissionError unified_data_csv)"
    by (simp add: read_csv_def under_file_def locked_world_def sample_world_def
        unified_data_csv_def reference_codes_csv_def)
  have lm: "mkdir_parents [''..'', ''data'', ''processed''] (fs locked_world) =
      Inr ((fs locked_world)\<lparr>dirs := dirs (fs locked_world) \<union> set (prefixes [''..'', ''data'', ''processed''])\<rparr>)"
    by (simp add: mkdir_parents_def under_file_def locked_world_def sample_world_def
        unified_data_csv_def reference_codes_csv_def)
  have x: "read_csv unified_data_csv (fs misplaced_world) = Inl (IsADirectoryError unified_data_csv)"
    by (simp add: read_csv_def under_file_def misplaced_world_def unified_data_csv_def
        reference_codes_csv_def)
  have xm: "mkdir_parents [''..'', ''data'', ''processed''] (fs misplaced_world) =
      Inr ((fs misplaced_world)\<lparr>dirs := dirs (fs misplaced_world) \<union>
        set (prefixes [''..'', ''data'', ''processed''])\<rparr>)"
    by (simp add: mkdir_parents_def under_file_def misplaced_world_def unified_data_csv_def
        reference_codes_csv_def)
  from main_input_unavailable [of bare_world "FileNotFoundError unified_data_csv"
      sample_to_datetime sample_strftime "''2026-01-01T00:00:00''"] b
  have 1: "files (fs (snd (main sample_to_datetime sample_strftime ''2026-01-01T00:00:00'' bare_world))) =
       Map.empty"
    "fst (main sample_to_datetime sample_strftime ''2026-01-01T00:00:00'' bare_world) = Inr ()"
    by (simp_all add: bm) (simp add: bare_world_def)
  from main_input_unavailable [of unreferenced_world "FileNotFoundError reference_codes_csv"
      sample_to_datetime sample_strftime "''2026-01-01T00:00:00''"] u
  have 2: "files (fs (snd (main sample_to_datetime sample_strftime ''2026-01-01T00:00:00''
         unreferenced_world))) = files (fs unreferenced_world)"
    "fst (main sample_to_datetime sample_strftime ''2026-01-01T00:00:00'' unreferenced_world) =
       Inr ()"
    "stdout (snd (main sample_to_datetime sample_strftime ''2026-01-01T00:00:00''
         unreferenced_world)) =
       banner @ [Text ''Loading datasets...'',
         ErrorLoadingData (FileNotFoundError reference_codes_csv)]"
    by (simp_all add: um us)
  from main_input_unavailable [of locked_world "PermissionError unified_data_csv"
      sample_to_datetime sample_strftime "''2026-01-01T00:00:00''"] l
  have 3: "files (fs (snd (main sample_to_datetime sample_strftime ''2026-01-01T00:00:00'' locked_world))) =
       files (fs locked_world)"
    "fst (main sample_to_datetime sample_strftime ''2026-01-01T00:00:00'' locked_world) =
       Inl (PermissionError unified_data_csv)"
    "exit_status (fst (main sample_to_datetime sample_strftime ''2026-01-01T00:00:00'' locked_world)) = 1"
    by (simp_all add: lm exit_status_def)
  from main_input_unavailable [of misplaced_world "IsADirectoryError unified_data_csv"
      sample_to_datetime sample_strftime "''2026-01-01T00:00:00''"] x
  have 4: "fst (main sample_to_datetime sample_strftime ''2026-01-01T00:00:00'' misplaced_world) =
       Inl (IsADirectoryError unified_data_csv)"
    "exit_status (fst (main sample_to_datetime sample_strftime ''2026-01-01T00:00:00''
         misplaced_world)) = 1"
    by (simp_all add: xm exit_status_def)
  from b 1 u 2 x 4 l 3 show ?thesis
    by (intro conjI)
qed

section \<open>Claims about the growth metrics\<close>

text \<open>
  Claim C10. With fewer than two forecast values the result is the empty dictionary.
  With two or more, whenever a dictionary is returned, its \<open>doubling_time\<close> is the
  quotient of 72 by its \<open>cagr_percent\<close>, as the division of the arithmetic gives it, when
  \<open>cagr_percent > 0\<close> holds, and \<open>None\<close> when it does not. When the growth rate has been
  computed and is not positive, the dictionary is returned with \<open>None\<close>: nothing is
  divided, so no division can fail. When it is positive, 72 is divided by it and the
  dictionary holds the quotient. This holds for every arithmetic.
\<close>

theorem growth_metrics_doubling_time:
  "(length forecast_values < 2 \<longrightarrow>
      calculate_growth_metrics A current_value forecast_values years = Inr Map.empty)
   \<and> (2 \<le> length forecast_values \<longrightarrow>
      (\<forall>m. calculate_growth_metrics A current_value forecast_values years = Inr m \<longrightarrow>
        (\<exists>cagr. m ''cagr_percent'' = Some (Some cagr)
           \<and> (num_gt A cagr (num_lit A 0) = Inr True
                \<and> (\<exists>q. num_truediv A (num_lit A 72) cagr = Inr q
                       \<and> m ''doubling_time'' = Some (Some q))
              \<or> num_gt A cagr (num_lit A 0) = Inr False
                \<and> m ''doubling_time'' = Some None))))
   \<and> (2 \<le> length forecast_values \<longrightarrow>
      (\<forall>total annual cagr.
         growth_values A current_value forecast_values years = Inr (total, annual, cagr) \<longrightarrow>
         num_gt A cagr (num_lit A 0) = Inr False \<longrightarrow>
           calculate_growth_metrics A current_value forecast_values years =
             Inr [''total_growth_pp'' \<mapsto> Some total, ''annual_growth_pp'' \<mapsto> Some annual,
                  ''cagr_percent'' \<mapsto> Some cagr, ''doubling_time'' \<mapsto> None]))
   \<and> (2 \<le> length forecast_values \<longrightarrow>
      (\<forall>total annual cagr q.
         growth_values A current_value forecast_values years = Inr (total, annual, cagr) \<longrightarrow>
         num_gt A cagr (num_lit A 0) = Inr True \<longrightarrow>
         num_truediv A (num_lit A 72) cagr = Inr q \<longrightarrow>
           calculate_growth_metrics A current_value forecast_values years =
             Inr [''total_growth_pp'' \<mapsto> Some total, ''annual_growth_pp'' \<mapsto> Some annual,
                  ''cagr_percent'' \<mapsto> Some cagr, ''doubling_time'' \<mapsto> Some q]))"
proof (intro conjI impI allI)
  assume "length forecast_values < 2"
  then show "calculate_growth_metrics A current_value forecast_values years = Inr Map.empty"
    by (simp add: calculate_growth_metrics_def)
next
  fix m
  assume l: "2 \<le> length forecast_values"
    and r: "calculate_growth_metrics A current_value forecast_values years = Inr m"
  from l have n: "\<not> length forecast_values < 2"
    by simp
  show "\<exists>cagr. m ''cagr_percent'' = Some (Some cagr)
      \<and> (num_gt A cagr (num_lit A 0) = Inr True
           \<and> (\<exists>q. num_truediv A (num_lit A 72) cagr = Inr q
                  \<and> m ''doubling_time'' = Some (Some q))
         \<or> num_gt A cagr (num_lit A 0) = Inr False
           \<and> m ''doubling_time'' = Some None)"
  proof (cases "growth_values A current_value forecast_values years")
    case (Inl e)
    with r n show ?thesis
      by (simp add: calculate_growth_metrics_def)
  next
    case (Inr v)
    obtain total annual cagr where v: "v = (total, annual, cagr)"
      by (cases v)
    show ?thesis
    proof (cases "num_gt A cagr (num_lit A 0)")
      case (Inl e)
      with r n Inr v show ?thesis
        by (simp add: calculate_growth_metrics_def)
    next
      case g: (Inr positive)
      show ?thesis
      proof (cases positive)
        case False
        with r n Inr v g have "m =
            [''total_growth_pp'' \<mapsto> Some total, ''annual_growth_pp'' \<mapsto> Some annual,
             ''cagr_percent'' \<mapsto> Some cagr, ''doubling_time'' \<mapsto> None]"
          by (simp add: calculate_growth_metrics_def)
        with g False show ?thesis
          by (intro exI [of _ cagr]) simp
      next
        case True
        show ?thesis
        proof (cases "num_truediv A (num_lit A 72) cagr")
          case (Inl e)
          with r n Inr v g True show ?thesis
            by (simp add: calculate_growth_metrics_def)
        next
          case q: (Inr q)
          with r n Inr v g True have "m =
              [''total_growth_pp'' \<mapsto> Some total, ''annual_growth_pp'' \<mapsto> Some annual,
               ''cagr_percent'' \<mapsto> Some cagr, ''doubling_time'' \<mapsto> Some q]"
            by (simp add: calculate_growth_metrics_def)
          with g True q show ?thesis
            by (intro exI [of _ cagr]) simp
        qed
      qed
    qed
  qed
next
  fix total annual cagr
  assume "2 \<le> length forecast_values"
    and "growth_values A current_value forecast_values years = Inr (total, annual, cagr)"
    and "num_gt A cagr (num_lit A 0) = Inr False"
  then show "calculate_growth_metrics A current_value forecast_values years =
      Inr [''total_growth_pp'' \<mapsto> Some total, ''annual_growth_pp'' \<mapsto> Some annual,
           ''cagr_percent'' \<mapsto> Some cagr, ''doubling_time'' \<mapsto> None]"
    by (simp add: calculate_growth_metrics_def)
next
  fix total annual cagr q
  assume "2 \<le> length forecast_values"
    and "growth_values A current_value forecast_values years = Inr (total, annual, cagr)"
    and "num_gt A cagr (num_lit A 0) = Inr True"
    and "num_truediv A (num_lit A 72) cagr = Inr q"
  then show "calculate_growth_metrics A current_value forecast_values years =
      Inr [''total_growth_pp'' \<mapsto> Some total, ''annual_growth_pp'' \<mapsto> Some annual,
           ''cagr_percent'' \<mapsto> Some cagr, ''doubling_time'' \<mapsto> Some q]"
    by (simp add: calculate_growth_metrics_def)
qed

lemma growth_values_doubled:
  "growth_values exact_arith 1 [0, 2] [2025 :: nat] = Inr (1, 1, 100)"
  by (simp add: growth_values_def exact_arith_def)

lemma growth_values_flat:
  "growth_values exact_arith 1 [1, 1] [2025 :: nat, 2026] = Inr (0, 0, 0)"
  by (simp add: growth_values_def exact_arith_def)

theorem growth_metrics_doubling_time_witness:
  "calculate_growth_metrics exact_arith 1 [5] [2025 :: nat] = Inr Map.empty
   \<and> growth_values exact_arith 1 [0, 2] [2025 :: nat] = Inr (1, 1, 100)
   \<and> num_gt exact_arith 100 (num_lit exact_arith 0) = Inr True
   \<and> num_truediv exact_arith (num_lit exact_arith 72) 100 = Inr (72 / 100)
   \<and> calculate_growth_metrics exact_arith 1 [0, 2] [2025 :: nat] =
       Inr [''total_growth_pp'' \<mapsto> Some 1, ''annual_growth_pp'' \<mapsto> Some 1,
            ''cagr_percent'' \<mapsto> Some 100, ''doubling_time'' \<mapsto> Some (72 / 100)]
   \<and> growth_values exact_arith 1 [1, 1] [2025 :: nat, 2026] = Inr (0, 0, 0)
   \<and> num_gt exact_arith 0 (num_lit exact_arith 0) = Inr False
   \<and> calculate_growth_metrics exact_arith 1 [1, 1] [2025 :: nat, 2026] =
       Inr [''total_growth_pp'' \<mapsto> Some 0, ''annual_growth_pp'' \<mapsto> Some 0,
            ''cagr_percent'' \<mapsto> Some 0, ''doubling_time'' \<mapsto> None]"
proof -
  have g1: "num_gt exact_arith 100 (num_lit exact_arith 0) = Inr True"
    and d1: "num_truediv exact_arith (num_lit exact_arith 72) 100 = Inr (72 / 100)"
    and g0: "num_gt exact_arith 0 (num_lit exact_arith 0) = Inr False"
    by (simp_all add: exact_arith_def)
  from growth_metrics_doubling_time [of "[5]" exact_arith 1 "[2025 :: nat]"]
  have 1: "calculate_growth_metrics exact_arith 1 [5] [2025 :: nat] = Inr Map.empty"
    by simp
  from growth_metrics_doubling_time [of "[0, 2]" exact_arith 1 "[2025 :: nat]"]
    growth_values_doubled g1 d1
  have 2: "calculate_growth_metrics exact_arith 1 [0, 2] [2025 :: nat] =
       Inr [''total_growth_pp'' \<mapsto> Some 1, ''annual_growth_pp'' \<mapsto> Some 1,
            ''cagr_percent'' \<mapsto> Some 100, ''doubling_time'' \<mapsto> Some (72 / 100)]"
    by simp
  from growth_metrics_doubling_time [of "[1, 1]" exact_arith 1 "[2025 :: nat, 2026]"]
    growth_values_flat g0
  have 3: "calculate_growth_metrics exact_arith 1 [1, 1] [2025 :: nat, 2026] =
       Inr [''total_growth_pp'' \<mapsto> Some 0, ''annual_growth_pp'' \<mapsto> Some 0,
            ''cagr_percent'' \<mapsto> Some 0, ''doubling_time'' \<mapsto> None]"
    by simp
  from 1 growth_values_doubled g1 d1 2 growth_values_flat g0 3 show ?thesis
    by (intro conjI)
qed

end
